theory Spec2Isabelle
  imports Complex_Main "HOL-Library.Word"
begin

section \<open>JavaScript numbers\<close>

text \<open>
  The frontend is TypeScript; every \<^verbatim>\<open>number\<close> of the source is an IEEE 754 binary64
  value. A number is \<open>NaN\<close>, one of the two infinities, the negative zero, or a finite
  value carried as the rational it denotes (\<open>Fin 0\<close> is the positive zero). The
  arithmetic below computes the exact rational result and rounds it to the nearest
  binary64 value, ties to even, as ECMAScript's \<open>Number::add\<close>, \<open>Number::multiply\<close> and
  \<open>Number::divide\<close> do.
\<close>

datatype number = NaN | PosInfinity | NegInfinity | NegZero | Fin rat

function bit_length :: "int \<Rightarrow> int" where
  "bit_length n = (if n \<le> 0 then 0 else 1 + bit_length (n div 2))"
  by pat_completeness auto
termination
  by (relation "measure nat") auto

declare bit_length.simps [simp del]

definition pow2 :: "int \<Rightarrow> rat" where
  "pow2 k = (if 0 \<le> k then 2 ^ nat k else 1 / 2 ^ nat (- k))"

text \<open>
  For \<open>a > 0\<close>, the integer \<open>e\<close> with \<open>2\<^sup>e \<le> a < 2\<^sup>e\<^sup>+\<^sup>1\<close>: read off the length of the integer
  part of \<open>a\<close>, or of \<open>1 / a\<close> when \<open>a < 1\<close> (then \<open>2\<^sup>k \<le> 1 / a < 2\<^sup>k\<^sup>+\<^sup>1\<close> for the \<open>k\<close> found, and
  \<open>e\<close> is \<open>- k\<close> when \<open>a\<close> is that power of two and \<open>- k - 1\<close> otherwise).
\<close>

definition below_one :: "rat \<Rightarrow> int \<Rightarrow> int" where
  "below_one a k = (if a = pow2 (- k) then - k else - k - 1)"

definition floor_log2 :: "rat \<Rightarrow> int" where
  "floor_log2 a =
     (if 1 \<le> a then bit_length \<lfloor>a\<rfloor> - 1 else below_one a (bit_length \<lfloor>1 / a\<rfloor> - 1))"

definition round_half_even :: "rat \<Rightarrow> int" where
  "round_half_even x =
     (if x - of_int \<lfloor>x\<rfloor> < 1 / 2 then \<lfloor>x\<rfloor>
      else if 1 / 2 < x - of_int \<lfloor>x\<rfloor> then \<lfloor>x\<rfloor> + 1
      else if even \<lfloor>x\<rfloor> then \<lfloor>x\<rfloor> else \<lfloor>x\<rfloor> + 1)"

definition signed_zero :: "bool \<Rightarrow> number" where
  "signed_zero neg = (if neg then NegZero else Fin 0)"

definition signed_infinity :: "bool \<Rightarrow> number" where
  "signed_infinity neg = (if neg then NegInfinity else PosInfinity)"

text \<open>
  The Number value for a rational: 53 bits of precision, exponents from \<open>-1022\<close>
  (subnormals below) to \<open>1023\<close>, overflow to an infinity, underflow to a signed zero.
  \<open>nearest a q\<close> is the multiple of \<open>2\<^sup>q\<close> nearest to \<open>a\<close>, ties to the even multiple, and
  \<open>q\<close> is the exponent of the last of the 53 bits.
\<close>

definition nearest :: "rat \<Rightarrow> int \<Rightarrow> rat" where
  "nearest a q = of_int (round_half_even (a / pow2 q)) * pow2 q"

definition signed_number :: "bool \<Rightarrow> rat \<Rightarrow> number" where
  "signed_number neg v =
     (if pow2 1024 \<le> v then signed_infinity neg
      else if v = 0 then signed_zero neg
      else Fin (if neg then - v else v))"

definition number_value :: "rat \<Rightarrow> number" where
  "number_value x =
     (if x = 0 then Fin 0
      else signed_number (x < 0) (nearest \<bar>x\<bar> (max (floor_log2 \<bar>x\<bar>) (- 1022) - 52)))"

definition is_zero :: "number \<Rightarrow> bool" where
  "is_zero x = (x = Fin 0 \<or> x = NegZero)"

definition is_infinite :: "number \<Rightarrow> bool" where
  "is_infinite x = (x = PosInfinity \<or> x = NegInfinity)"

fun is_negative :: "number \<Rightarrow> bool" where
  "is_negative NaN = False"
| "is_negative PosInfinity = False"
| "is_negative NegInfinity = True"
| "is_negative NegZero = True"
| "is_negative (Fin r) = (r < 0)"

fun rat_of :: "number \<Rightarrow> rat" where
  "rat_of (Fin r) = r"
| "rat_of _ = 0"

definition number_add :: "number \<Rightarrow> number \<Rightarrow> number" where
  "number_add x y =
     (if x = NaN \<or> y = NaN then NaN
      else if is_infinite x then (if is_infinite y \<and> x \<noteq> y then NaN else x)
      else if is_infinite y then y
      else if x = NegZero \<and> y = NegZero then NegZero
      else number_value (rat_of x + rat_of y))"

definition number_multiply :: "number \<Rightarrow> number \<Rightarrow> number" where
  "number_multiply x y =
     (if x = NaN \<or> y = NaN then NaN
      else if is_infinite x \<or> is_infinite y then
        (if is_zero x \<or> is_zero y then NaN
         else signed_infinity (is_negative x \<noteq> is_negative y))
      else if is_zero x \<or> is_zero y then signed_zero (is_negative x \<noteq> is_negative y)
      else number_value (rat_of x * rat_of y))"

definition number_divide :: "number \<Rightarrow> number \<Rightarrow> number" where
  "number_divide x y =
     (if x = NaN \<or> y = NaN then NaN
      else if is_infinite x then
        (if is_infinite y then NaN else signed_infinity (is_negative x \<noteq> is_negative y))
      else if is_infinite y then signed_zero (is_negative x \<noteq> is_negative y)
      else if is_zero y then
        (if is_zero x then NaN else signed_infinity (is_negative x \<noteq> is_negative y))
      else if is_zero x then signed_zero (is_negative x \<noteq> is_negative y)
      else number_value (rat_of x / rat_of y))"

definition number_unaryMinus :: "number \<Rightarrow> number" where
  "number_unaryMinus x =
     (case x of
        NaN \<Rightarrow> NaN
      | PosInfinity \<Rightarrow> NegInfinity
      | NegInfinity \<Rightarrow> PosInfinity
      | NegZero \<Rightarrow> Fin 0
      | Fin r \<Rightarrow> (if r = 0 then NegZero else Fin (- r)))"

text \<open>
  The operators \<open>+\<close>, \<open>*\<close>, \<open>/\<close> and unary \<open>-\<close> on \<open>number\<close> are the four functions above,
  so that the handlers below read as their source does. No algebraic law comes with
  them: floating-point addition is not associative.
\<close>

instantiation number :: "{zero, one, plus, times, uminus, inverse}"
begin

definition zero_number :: number where
  "zero_number = Fin 0"

definition one_number :: number where
  "one_number = Fin 1"

definition plus_number :: "number \<Rightarrow> number \<Rightarrow> number" where
  "plus_number = number_add"

definition times_number :: "number \<Rightarrow> number \<Rightarrow> number" where
  "times_number = number_multiply"

definition divide_number :: "number \<Rightarrow> number \<Rightarrow> number" where
  "divide_number = number_divide"

definition uminus_number :: "number \<Rightarrow> number" where
  "uminus_number = number_unaryMinus"

definition inverse_number :: "number \<Rightarrow> number" where
  "inverse_number = number_divide (Fin 1)"

instance ..

end

text \<open>\<open>ToBoolean\<close> of a number, and the operator \<^verbatim>\<open>a || b\<close> on numbers.\<close>

definition truthy :: "number \<Rightarrow> bool" where
  "truthy x = (\<not> (x = NaN \<or> is_zero x))"

definition or_else :: "number \<Rightarrow> number \<Rightarrow> number" where
  "or_else a b = (if truthy a then a else b)"

section \<open>JavaScript strings and \<open>parseFloat\<close>\<close>

text \<open>
  A string is a sequence of UTF-16 code units. \<open>utf16\<close> writes an ASCII literal.
\<close>

type_synonym js_string = "16 word list"

definition utf16 :: "string \<Rightarrow> js_string" where
  "utf16 s = map of_char s"

text \<open>ECMAScript's \<open>WhiteSpace\<close> and \<open>LineTerminator\<close> code points.\<close>

definition is_white_space :: "16 word \<Rightarrow> bool" where
  "is_white_space c =
     (c = 0x9 \<or> c = 0xA \<or> c = 0xB \<or> c = 0xC \<or> c = 0xD \<or> c = 0x20 \<or> c = 0xA0
      \<or> c = 0x1680 \<or> (0x2000 \<le> c \<and> c \<le> 0x200A) \<or> c = 0x2028 \<or> c = 0x2029
      \<or> c = 0x202F \<or> c = 0x205F \<or> c = 0x3000 \<or> c = 0xFEFF)"

definition is_digit :: "16 word \<Rightarrow> bool" where
  "is_digit c = (0x30 \<le> c \<and> c \<le> 0x39)"

definition digits_value :: "js_string \<Rightarrow> nat" where
  "digits_value ds = foldl (\<lambda>n c. 10 * n + (unat c - 48)) 0 ds"

definition pow10 :: "int \<Rightarrow> rat" where
  "pow10 k = (if 0 \<le> k then 10 ^ nat k else 1 / 10 ^ nat (- k))"

text \<open>
  The exponent of an optional \<open>ExponentPart\<close> at the head of \<open>r\<close>: \<^verbatim>\<open>e\<close> or \<^verbatim>\<open>E\<close>, an
  optional sign and at least one digit. Anything else is no exponent part, and the
  literal ends before it.
\<close>

definition exponent_part :: "js_string \<Rightarrow> int" where
  "exponent_part r =
     (case r of
        [] \<Rightarrow> 0
      | c # r' \<Rightarrow>
          if c = 0x65 \<or> c = 0x45 then
            (let (neg, r'') =
                   (case r' of
                      [] \<Rightarrow> (False, [])
                    | s # t \<Rightarrow>
                        if s = 0x2D then (True, t)
                        else if s = 0x2B then (False, t) else (False, r'));
                 ds = takeWhile is_digit r''
             in if ds = [] then 0
                else if neg then - int (digits_value ds) else int (digits_value ds))
          else 0)"

datatype literal = Infinity_literal | Decimal_literal rat

text \<open>
  The longest prefix of \<open>t\<close> that is a \<open>StrUnsignedDecimalLiteral\<close>, as its mathematical
  value: \<^verbatim>\<open>Infinity\<close>, or digits with an optional fraction and exponent, at least one
  digit before or after the point.
\<close>

definition unsigned_literal :: "js_string \<Rightarrow> literal option" where
  "unsigned_literal t =
     (if take 8 t = utf16 ''Infinity'' then Some Infinity_literal
      else
        let ip = takeWhile is_digit t;
            r1 = dropWhile is_digit t;
            (fp, r3) =
              (case r1 of
                 [] \<Rightarrow> ([], [])
               | c # r2 \<Rightarrow>
                   if c = 0x2E then (takeWhile is_digit r2, dropWhile is_digit r2)
                   else ([], r1))
        in if ip = [] \<and> fp = [] then None
           else Some (Decimal_literal
                  (of_nat (digits_value (ip @ fp)) * pow10 (exponent_part r3 - int (length fp)))))"

text \<open>
  \<^verbatim>\<open>parseFloat(string)\<close>: leading white space is dropped, an optional sign is read, the
  longest literal prefix is taken and its value rounded to a Number; \<open>NaN\<close> when there
  is no such prefix.
\<close>

definition parseFloat :: "js_string \<Rightarrow> number" where
  "parseFloat s =
     (let t = dropWhile is_white_space s;
          (neg, u) =
            (case t of
               [] \<Rightarrow> (False, [])
             | c # r \<Rightarrow>
                 if c = 0x2D then (True, r)
                 else if c = 0x2B then (False, r) else (False, t))
      in case unsigned_literal u of
           None \<Rightarrow> NaN
         | Some Infinity_literal \<Rightarrow> signed_infinity neg
         | Some (Decimal_literal mv) \<Rightarrow>
             (if neg then - number_value mv else number_value mv))"

section \<open>The invoice review page (\<^verbatim>\<open>app/invoices/[id]/page.tsx\<close>)\<close>

text \<open>A property declared \<^verbatim>\<open>name?: T | null\<close>: absent, \<^verbatim>\<open>null\<close> or a value.\<close>

datatype 'a optional = Undefined | Null | Val 'a

record InvoiceItem =
  sku :: "js_string optional"
  description :: "js_string optional"
  qty :: number
  unit_price :: number
  tax_rate :: number
  line_total :: number

datatype status = PENDING | APPROVED

text \<open>The property \<^verbatim>\<open>id\<close> is the field \<open>id_no\<close>; \<open>id\<close> is HOL's identity function.\<close>

record InvoiceDetail =
  id_no :: number
  supplier_name :: "js_string optional"
  supplier_gstin :: "js_string optional"
  invoice_no :: js_string
  invoice_date :: "js_string optional"
  subtotal :: number
  tax :: number
  total :: number
  status :: status
  items :: "InvoiceItem list"

text \<open>\<^verbatim>\<open>keyof InvoiceDetail\<close> and \<^verbatim>\<open>keyof InvoiceItem\<close>.\<close>

datatype InvoiceDetail_key =
  Key_id | Key_supplier_name | Key_supplier_gstin | Key_invoice_no | Key_invoice_date
  | Key_subtotal | Key_tax | Key_total | Key_status | Key_items

datatype InvoiceItem_key =
  Key_sku | Key_description | Key_qty | Key_unit_price | Key_tax_rate | Key_line_total

text \<open>
  The page's state is \<^verbatim>\<open>invoice: InvoiceDetail | null\<close>, here \<open>InvoiceDetail option\<close>. Each
  handler is modelled as the function from the \<^verbatim>\<open>invoice\<close> it closes over to the value
  it passes to \<^verbatim>\<open>setInvoice\<close> (the state itself when it returns without calling it).

  Two handlers build an object with a computed key, \<^verbatim>\<open>{ ...invoice, [field]: v }\<close>, which
  TypeScript accepts for every key. Where the object built is not an \<open>InvoiceDetail\<close>
  (a number stored under a key of another type, an array element written beyond the
  array's end) the result is \<open>Untyped\<close>: the model follows the state only as long as it
  has its declared type.
\<close>

datatype 'a typed = Typed 'a | Untyped

text \<open>\<^verbatim>\<open>{ ...invoice, [field]: v }\<close> for a number \<open>v\<close>.\<close>

fun spread_number :: "InvoiceDetail \<Rightarrow> InvoiceDetail_key \<Rightarrow> number \<Rightarrow> InvoiceDetail typed" where
  "spread_number invoice Key_id v = Typed (invoice\<lparr>id_no := v\<rparr>)"
| "spread_number invoice Key_subtotal v = Typed (invoice\<lparr>subtotal := v\<rparr>)"
| "spread_number invoice Key_tax v = Typed (invoice\<lparr>tax := v\<rparr>)"
| "spread_number invoice Key_total v = Typed (invoice\<lparr>total := v\<rparr>)"
| "spread_number invoice _ v = Untyped"

definition handleNumberChange ::
  "InvoiceDetail_key \<Rightarrow> js_string \<Rightarrow> InvoiceDetail option \<Rightarrow> InvoiceDetail option typed" where
  "handleNumberChange field value st =
     (case st of
        None \<Rightarrow> Typed None
      | Some invoice \<Rightarrow>
          (case spread_number invoice field (or_else (parseFloat value) 0) of
             Typed invoice' \<Rightarrow> Typed (Some invoice')
           | Untyped \<Rightarrow> Untyped))"

text \<open>\<^verbatim>\<open>{ ...copy[index], [field]: v }\<close> for a number and for a string.\<close>

fun spread_item_number :: "InvoiceItem \<Rightarrow> InvoiceItem_key \<Rightarrow> number \<Rightarrow> InvoiceItem typed" where
  "spread_item_number item Key_qty v = Typed (item\<lparr>qty := v\<rparr>)"
| "spread_item_number item Key_unit_price v = Typed (item\<lparr>unit_price := v\<rparr>)"
| "spread_item_number item Key_tax_rate v = Typed (item\<lparr>tax_rate := v\<rparr>)"
| "spread_item_number item Key_line_total v = Typed (item\<lparr>line_total := v\<rparr>)"
| "spread_item_number item _ v = Untyped"

fun spread_item_string :: "InvoiceItem \<Rightarrow> InvoiceItem_key \<Rightarrow> js_string \<Rightarrow> InvoiceItem typed" where
  "spread_item_string item Key_sku v = Typed (item\<lparr>sku := Val v\<rparr>)"
| "spread_item_string item Key_description v = Typed (item\<lparr>description := Val v\<rparr>)"
| "spread_item_string item _ v = Untyped"

text \<open>
  \<open>index\<close> is a position of \<^verbatim>\<open>invoice.items\<close>: the page calls \<open>updateItem\<close> and
  \<open>removeItem\<close> with the index \<^verbatim>\<open>invoice.items.map\<close> hands to its callback. Beyond the
  end of the array, \<^verbatim>\<open>copy[index] = { ...copy[index], [field]: v }\<close> stores an object with
  the one property \<open>field\<close>, which is no \<open>InvoiceItem\<close>.
\<close>

definition updateItem ::
  "nat \<Rightarrow> InvoiceItem_key \<Rightarrow> js_string \<Rightarrow> InvoiceDetail option \<Rightarrow> InvoiceDetail option typed" where
  "updateItem index field value st =
     (case st of
        None \<Rightarrow> Typed None
      | Some invoice \<Rightarrow>
          (let copy = items invoice in
           if index < length copy then
             (case (if field = Key_qty \<or> field = Key_unit_price \<or> field = Key_tax_rate
                       \<or> field = Key_line_total
                    then spread_item_number (copy ! index) field (or_else (parseFloat value) 0)
                    else spread_item_string (copy ! index) field value) of
                Typed item \<Rightarrow> Typed (Some (invoice\<lparr>items := copy[index := item]\<rparr>))
              | Untyped \<Rightarrow> Untyped)
           else Untyped))"

definition addItem :: "InvoiceDetail option \<Rightarrow> InvoiceDetail option" where
  "addItem st =
     (case st of
        None \<Rightarrow> None
      | Some invoice \<Rightarrow>
          Some (invoice\<lparr>items :=
            items invoice @
            [\<lparr>sku = Val [], description = Val [], qty = Fin 1,
              unit_price = Fin 0, tax_rate = Fin 0, line_total = Fin 0\<rparr>]\<rparr>))"

text \<open>\<^verbatim>\<open>array.filter((_, idx) => p(idx))\<close>: the elements whose position satisfies \<open>p\<close>.\<close>

definition filter_index :: "(nat \<Rightarrow> bool) \<Rightarrow> 'a list \<Rightarrow> 'a list" where
  "filter_index p xs = map snd (filter (\<lambda>(idx, _). p idx) (enumerate 0 xs))"

definition removeItem :: "nat \<Rightarrow> InvoiceDetail option \<Rightarrow> InvoiceDetail option" where
  "removeItem index st =
     (case st of
        None \<Rightarrow> None
      | Some invoice \<Rightarrow>
          if length (items invoice) = 1 then Some invoice
          else Some (invoice\<lparr>items := filter_index (\<lambda>idx. idx \<noteq> index) (items invoice)\<rparr>))"

text \<open>\<^verbatim>\<open>array.reduce(callback, initialValue)\<close>: the callback is applied from the left.\<close>

fun reduce :: "('b \<Rightarrow> 'a \<Rightarrow> 'b) \<Rightarrow> 'b \<Rightarrow> 'a list \<Rightarrow> 'b" where
  "reduce f acc [] = acc"
| "reduce f acc (x # xs) = reduce f (f acc x) xs"

definition recalcTotals :: "InvoiceDetail option \<Rightarrow> InvoiceDetail option" where
  "recalcTotals st =
     (case st of
        None \<Rightarrow> None
      | Some invoice \<Rightarrow>
          (let subtotal' = reduce (\<lambda>sum item. sum + qty item * unit_price item) 0 (items invoice);
               tax' = reduce (\<lambda>sum item. sum + qty item * unit_price item * (tax_rate item / Fin 100))
                        0 (items invoice);
               total' = subtotal' + tax'
           in Some (invoice\<lparr>subtotal := subtotal', tax := tax', total := total'\<rparr>)))"

text \<open>The options of the status \<^verbatim>\<open><select>\<close>.\<close>

definition statusOptions :: "status list" where
  "statusOptions = [PENDING, APPROVED]"

definition status_literal :: "status \<Rightarrow> string" where
  "status_literal s = (case s of PENDING \<Rightarrow> ''PENDING'' | APPROVED \<Rightarrow> ''APPROVED'')"

section \<open>The dashboard (\<^verbatim>\<open>app/page.tsx\<close>)\<close>

text \<open>
  A row of the invoice table, \<^verbatim>\<open>type Invoice\<close>. Its properties carry the prefix \<open>row_\<close>:
  their names are those of \<open>InvoiceDetail\<close>.
\<close>

record Invoice =
  row_id :: number
  row_supplier_name :: js_string
  row_invoice_no :: js_string
  row_total :: number
  row_status :: js_string
  row_created_at :: js_string

datatype MessageType = success | error | info

text \<open>The selected \<^verbatim>\<open>File\<close>: its name and its \<^verbatim>\<open>size\<close> in bytes.\<close>

record File =
  file_name :: js_string
  file_size :: nat

text \<open>The component's state, one field for each \<^verbatim>\<open>useState\<close>.\<close>

record Home =
  "file" :: "File option"
  busy :: bool
  invoices :: "Invoice list"
  msg :: js_string
  msgType :: MessageType

text \<open>
  The backend is not part of the repository. What it answers is a parameter of the
  model, as far as the page looks at it.

  To \<^verbatim>\<open>POST /extract\<close>: \<open>Threw m\<close> when \<^verbatim>\<open>fetch\<close>, \<^verbatim>\<open>res.json()\<close> or \<^verbatim>\<open>data.total.toFixed(2)\<close>
  throws a value whose \<^verbatim>\<open>message\<close> is \<open>m\<close> (\<open>None\<close> when it is missing or empty);
  \<open>Not_ok d\<close> when \<^verbatim>\<open>res.ok\<close> is false and the body's \<^verbatim>\<open>detail\<close> is \<open>d\<close> (\<open>None\<close> when it is
  missing or empty); \<open>Extracted no total\<close> when the body holds an invoice, \<open>no\<close> being
  \<^verbatim>\<open>data.invoice_no\<close> and \<open>total\<close> being \<^verbatim>\<open>data.total.toFixed(2)\<close> as strings.

  To \<^verbatim>\<open>GET /invoices\<close>: \<open>Load_failed\<close> when \<^verbatim>\<open>fetch\<close> or \<^verbatim>\<open>res.json()\<close> throws or \<^verbatim>\<open>res.ok\<close> is
  false; \<open>Loaded l\<close> with \<^verbatim>\<open>data.invoices\<close> (\<open>None\<close> when it is missing).
\<close>

datatype extract_response =
  Threw "js_string option" | Not_ok "js_string option" | Extracted js_string js_string

datatype invoices_response = Load_failed | Loaded "Invoice list option"

record backend =
  post_extract :: "File \<Rightarrow> extract_response"
  get_invoices :: invoices_response

datatype request = POST_extract File | GET_invoices

text \<open>\<^verbatim>\<open>s || d\<close> for a string that may be missing.\<close>

definition or_string :: "js_string option \<Rightarrow> js_string \<Rightarrow> js_string" where
  "or_string s d = (case s of None \<Rightarrow> d | Some v \<Rightarrow> if v = [] then d else v)"

definition refresh :: "backend \<Rightarrow> Home \<Rightarrow> Home" where
  "refresh api st =
     (case get_invoices api of
        Load_failed \<Rightarrow> st\<lparr>msg := utf16 ''Failed to load invoices'', msgType := error\<rparr>
      | Loaded l \<Rightarrow> st\<lparr>invoices := (case l of None \<Rightarrow> [] | Some rows \<Rightarrow> rows)\<rparr>)"

text \<open>
  \<open>onUpload\<close> returns the state it leaves and the requests it has sent, in order. The
  success message starts with U+2713 and holds U+2022 and U+20B9.
\<close>

definition onUpload :: "backend \<Rightarrow> Home \<Rightarrow> Home \<times> request list" where
  "onUpload api st =
     (case file st of
        None \<Rightarrow> (st\<lparr>msg := utf16 ''Please select a file'', msgType := error\<rparr>, [])
      | Some f \<Rightarrow>
          if file_size f > 5 * 1024 * 1024 then
            (st\<lparr>msg := utf16 ''File size must be less than 5MB'', msgType := error\<rparr>, [])
          else
            (let st1 = st\<lparr>busy := True, msg := []\<rparr> in
             case post_extract api f of
               Threw m \<Rightarrow>
                 (st1\<lparr>msg := or_string m (utf16 ''An error occurred''), msgType := error,
                      busy := False\<rparr>,
                  [POST_extract f])
             | Not_ok d \<Rightarrow>
                 (st1\<lparr>msg := or_string (Some (or_string d (utf16 ''Upload failed'')))
                               (utf16 ''An error occurred''),
                      msgType := error, busy := False\<rparr>,
                  [POST_extract f])
             | Extracted no tot \<Rightarrow>
                 (let st2 = st1\<lparr>msg := [0x2713] @ utf16 '' Extracted invoice '' @ no
                                      @ utf16 '' '' @ [0x2022] @ utf16 '' Total '' @ [0x20B9]
                                      @ tot,
                                 msgType := success, file := None\<rparr>
                  in ((refresh api st2)\<lparr>busy := False\<rparr>, [POST_extract f, GET_invoices]))))"

section \<open>The database schema (\<^verbatim>\<open>db/schema.sql\<close>)\<close>

text \<open>
  The schema is data: each \<^verbatim>\<open>CREATE TABLE\<close> is a \<open>table\<close> with its columns and foreign
  keys as declared. The two \<^verbatim>\<open>CREATE INDEX\<close> statements change no result and are left
  out. The table \<^verbatim>\<open>invoices\<close> is \<open>invoices_table\<close> (\<open>invoices\<close> is the dashboard's list),
  and its one foreign key is \<open>invoice_fk\<close>.
\<close>

datatype sql_type = INTEGER | VARCHAR nat | DATE | DECIMAL nat nat | ENUM "string list" | TIMESTAMP

datatype sql_value = NULL | Integer int | Text string | Dec rat

datatype default_clause = DEFAULT sql_value | DEFAULT_CURRENT_TIMESTAMP

datatype referential_action = RESTRICT | CASCADE | SET_NULL | NO_ACTION

record column =
  column_name :: string
  data_type :: sql_type
  not_null :: bool
  default_clause :: "default_clause option"
  auto_increment :: bool
  primary_key :: bool

record foreign_key =
  fk_column :: string
  references_table :: string
  references_column :: string
  on_delete :: referential_action

record table =
  table_name :: string
  columns :: "column list"
  foreign_keys :: "foreign_key list"

text \<open>A column with a name and a type and no other clause.\<close>

definition col :: "string \<Rightarrow> sql_type \<Rightarrow> column" where
  "col n t =
     \<lparr>column_name = n, data_type = t, not_null = False, default_clause = None,
      auto_increment = False, primary_key = False\<rparr>"

definition vendors :: table where
  "vendors =
     \<lparr>table_name = ''vendors'',
      columns =
        [(col ''id'' INTEGER)\<lparr>auto_increment := True, primary_key := True\<rparr>,
         (col ''name'' (VARCHAR 255))\<lparr>not_null := True\<rparr>,
         col ''gstin'' (VARCHAR 32),
         col ''rating'' (DECIMAL 4 2),
         (col ''risk_score'' (DECIMAL 5 2))\<lparr>default_clause := Some (DEFAULT (Dec 0))\<rparr>],
      foreign_keys = []\<rparr>"

definition invoices_table :: table where
  "invoices_table =
     \<lparr>table_name = ''invoices'',
      columns =
        [(col ''id'' INTEGER)\<lparr>auto_increment := True, primary_key := True\<rparr>,
         col ''supplier_name'' (VARCHAR 255),
         col ''supplier_gstin'' (VARCHAR 32),
         col ''invoice_no'' (VARCHAR 64),
         col ''invoice_date'' DATE,
         col ''subtotal'' (DECIMAL 12 2),
         col ''tax'' (DECIMAL 12 2),
         col ''total'' (DECIMAL 12 2),
         (col ''status'' (ENUM [''PENDING'', ''APPROVED'']))
           \<lparr>default_clause := Some (DEFAULT (Text ''PENDING''))\<rparr>,
         (col ''created_at'' TIMESTAMP)\<lparr>default_clause := Some DEFAULT_CURRENT_TIMESTAMP\<rparr>],
      foreign_keys = []\<rparr>"

definition invoice_fk :: foreign_key where
  "invoice_fk =
     \<lparr>fk_column = ''invoice_id'', references_table = ''invoices'', references_column = ''id'',
      on_delete = CASCADE\<rparr>"

definition invoice_items :: table where
  "invoice_items =
     \<lparr>table_name = ''invoice_items'',
      columns =
        [(col ''id'' INTEGER)\<lparr>auto_increment := True, primary_key := True\<rparr>,
         (col ''invoice_id'' INTEGER)\<lparr>not_null := True\<rparr>,
         col ''sku'' (VARCHAR 64),
         col ''description'' (VARCHAR 255),
         col ''qty'' (DECIMAL 12 2),
         col ''unit_price'' (DECIMAL 12 2),
         col ''tax_rate'' (DECIMAL 5 2),
         col ''line_total'' (DECIMAL 12 2)],
      foreign_keys = [invoice_fk]\<rparr>"

definition schema :: "table list" where
  "schema = [vendors, invoices_table, invoice_items]"

subsection \<open>What the declarations mean\<close>

text \<open>
  The meaning MySQL (InnoDB, strict mode) gives to the declarations, for any schema: a
  statement whose result would break a declared constraint fails and changes nothing
  (\<open>None\<close>). A row gives each column's value, \<open>NULL\<close> for a column it does not list.
  \<open>DATE\<close> and \<open>TIMESTAMP\<close> values are texts; the precision of a \<open>DECIMAL\<close> is not
  modelled.
\<close>

type_synonym row = "(string \<times> sql_value) list"

definition cell :: "row \<Rightarrow> string \<Rightarrow> sql_value" where
  "cell r c = (case map_of r c of None \<Rightarrow> NULL | Some v \<Rightarrow> v)"

text \<open>The rows of each table and each table's \<open>AUTO_INCREMENT\<close> counter.\<close>

record database =
  contents :: "string \<Rightarrow> row list"
  counter :: "string \<Rightarrow> int"

definition empty_database :: database where
  "empty_database = \<lparr>contents = (\<lambda>_. []), counter = (\<lambda>_. 1)\<rparr>"

fun has_type :: "sql_type \<Rightarrow> sql_value \<Rightarrow> bool" where
  "has_type _ NULL = True"
| "has_type INTEGER (Integer _) = True"
| "has_type (VARCHAR n) (Text s) = (length s \<le> n)"
| "has_type DATE (Text _) = True"
| "has_type TIMESTAMP (Text _) = True"
| "has_type (DECIMAL _ _) (Dec _) = True"
| "has_type (ENUM vs) (Text s) = (s \<in> set vs)"
| "has_type _ _ = False"

definition column_ok :: "column \<Rightarrow> row \<Rightarrow> bool" where
  "column_ok c r =
     (has_type (data_type c) (cell r (column_name c))
      \<and> (not_null c \<or> primary_key c \<longrightarrow> cell r (column_name c) \<noteq> NULL))"

definition key_of :: "table \<Rightarrow> row \<Rightarrow> sql_value list" where
  "key_of t r = map (\<lambda>c. cell r (column_name c)) (filter primary_key (columns t))"

definition reference_ok :: "database \<Rightarrow> foreign_key \<Rightarrow> row \<Rightarrow> bool" where
  "reference_ok db fk r =
     (cell r (fk_column fk) = NULL
      \<or> (\<exists>p \<in> set (contents db (references_table fk)).
            cell p (references_column fk) = cell r (fk_column fk)))"

text \<open>No two rows of a table with a primary key have the same key.\<close>

definition keys_unique :: "table \<Rightarrow> row list \<Rightarrow> bool" where
  "keys_unique t rows =
     (if filter primary_key (columns t) = [] then True else distinct (map (key_of t) rows))"

definition table_ok :: "database \<Rightarrow> table \<Rightarrow> bool" where
  "table_ok db t =
     ((\<forall>r \<in> set (contents db (table_name t)).
         (\<forall>c \<in> set (columns t). column_ok c r)
         \<and> (\<forall>fk \<in> set (foreign_keys t). reference_ok db fk r))
      \<and> keys_unique t (contents db (table_name t)))"

definition valid :: "table list \<Rightarrow> database \<Rightarrow> bool" where
  "valid s db = (\<forall>t \<in> set s. table_ok db t)"

definition find_table :: "table list \<Rightarrow> string \<Rightarrow> table option" where
  "find_table s name = find (\<lambda>t. table_name t = name) s"

text \<open>
  \<^verbatim>\<open>INSERT INTO name (...) VALUES (...)\<close> at the time \<open>now\<close>: a column the statement does
  not list takes the table's counter when it is \<open>AUTO_INCREMENT\<close>, else its default,
  else \<open>NULL\<close>.
\<close>

definition omitted :: "table \<Rightarrow> database \<Rightarrow> string \<Rightarrow> column \<Rightarrow> sql_value" where
  "omitted t db now c =
     (if auto_increment c then Integer (counter db (table_name t))
      else case default_clause c of
             None \<Rightarrow> NULL
           | Some (DEFAULT v) \<Rightarrow> v
           | Some DEFAULT_CURRENT_TIMESTAMP \<Rightarrow> Text now)"

definition complete_row :: "table \<Rightarrow> database \<Rightarrow> string \<Rightarrow> row \<Rightarrow> row" where
  "complete_row t db now given =
     map (\<lambda>c. (column_name c,
                case map_of given (column_name c) of
                  None \<Rightarrow> omitted t db now c
                | Some v \<Rightarrow> v))
         (columns t)"

definition next_counter :: "table \<Rightarrow> row \<Rightarrow> int \<Rightarrow> int" where
  "next_counter t r n =
     fold (\<lambda>c m. case cell r (column_name c) of Integer k \<Rightarrow> max m (k + 1) | _ \<Rightarrow> m)
          (filter auto_increment (columns t)) n"

definition insert_into :: "table list \<Rightarrow> string \<Rightarrow> row \<Rightarrow> string \<Rightarrow> database \<Rightarrow> database option" where
  "insert_into s name given now db =
     (case find_table s name of
        None \<Rightarrow> None
      | Some t \<Rightarrow>
          if \<not> (\<forall>n \<in> set (map fst given). n \<in> set (map column_name (columns t))) then None
          else
            (let r = complete_row t db now given;
                 db' = db\<lparr>contents := (contents db)(name := contents db name @ [r]),
                          counter := (counter db)(name := next_counter t r (counter db name))\<rparr>
             in if valid s db' then Some db' else None))"

text \<open>
  \<^verbatim>\<open>UPDATE name SET c = v WHERE p\<close>. A change of a referenced key that would leave a
  referencing row behind fails: the schema declares no \<open>ON UPDATE\<close> action.
\<close>

definition set_cell :: "row \<Rightarrow> string \<Rightarrow> sql_value \<Rightarrow> row" where
  "set_cell r c v = (c, v) # filter (\<lambda>(n, _). n \<noteq> c) r"

definition update_set ::
  "table list \<Rightarrow> string \<Rightarrow> string \<Rightarrow> sql_value \<Rightarrow> (row \<Rightarrow> bool) \<Rightarrow> database \<Rightarrow> database option" where
  "update_set s name c v p db =
     (case find_table s name of
        None \<Rightarrow> None
      | Some t \<Rightarrow>
          if c \<notin> set (map column_name (columns t)) then None
          else
            (let db' = db\<lparr>contents := (contents db)
                          (name := map (\<lambda>r. if p r then set_cell r c v else r) (contents db name))\<rparr>
             in if valid s db' then Some db' else None))"

text \<open>
  \<^verbatim>\<open>DELETE FROM name WHERE p\<close>. The foreign keys that reference \<open>name\<close> act on the rows
  that reference a deleted row: \<open>CASCADE\<close> deletes them in turn, \<open>SET NULL\<close> clears their
  column, \<open>RESTRICT\<close> and \<open>NO ACTION\<close> make the statement fail. InnoDB follows cascades
  to a depth of 15, the fuel of \<open>delete_rows\<close>.
\<close>

definition referencing :: "table list \<Rightarrow> string \<Rightarrow> (string \<times> foreign_key) list" where
  "referencing s name =
     concat (map (\<lambda>t. map (\<lambda>fk. (table_name t, fk))
                         (filter (\<lambda>fk. references_table fk = name) (foreign_keys t))) s)"

definition refers_to :: "foreign_key \<Rightarrow> row list \<Rightarrow> row \<Rightarrow> bool" where
  "refers_to fk gone r =
     (cell r (fk_column fk) \<noteq> NULL
      \<and> cell r (fk_column fk) \<in> set (map (\<lambda>g. cell g (references_column fk)) gone))"

fun delete_rows :: "nat \<Rightarrow> table list \<Rightarrow> string \<Rightarrow> (row \<Rightarrow> bool) \<Rightarrow> database \<Rightarrow> database option" where
  "delete_rows 0 s name p db = None"
| "delete_rows (Suc n) s name p db =
     (let gone = filter p (contents db name);
          db1 = db\<lparr>contents := (contents db)(name := filter (\<lambda>r. \<not> p r) (contents db name))\<rparr>
      in fold (\<lambda>(child, fk) acc.
                 case acc of
                   None \<Rightarrow> None
                 | Some d \<Rightarrow>
                     (case on_delete fk of
                        CASCADE \<Rightarrow> delete_rows n s child (refers_to fk gone) d
                      | SET_NULL \<Rightarrow>
                          Some (d\<lparr>contents := (contents d)
                                  (child := map (\<lambda>r. if refers_to fk gone r
                                                       then set_cell r (fk_column fk) NULL else r)
                                                (contents d child))\<rparr>)
                      | _ \<Rightarrow>
                          if \<exists>r \<in> set (contents d child). refers_to fk gone r then None
                          else Some d))
              (referencing s name) (Some db1))"

definition delete_from :: "table list \<Rightarrow> string \<Rightarrow> (row \<Rightarrow> bool) \<Rightarrow> database \<Rightarrow> database option" where
  "delete_from s name p db =
     (case find_table s name of None \<Rightarrow> None | Some t \<Rightarrow> delete_rows 15 s name p db)"

text \<open>
  The statements, with the time of an \<open>INSERT\<close> and the \<open>WHERE\<close> clause as a predicate
  on rows. \<open>run\<close> executes a script from a database: a statement that fails changes
  nothing, and the script goes on.
\<close>

datatype statement =
  INSERT_INTO string row string
  | UPDATE string string sql_value "row \<Rightarrow> bool"
  | DELETE_FROM string "row \<Rightarrow> bool"

fun execute :: "statement \<Rightarrow> database \<Rightarrow> database option" where
  "execute (INSERT_INTO name given now) db = insert_into schema name given now db"
| "execute (UPDATE name c v p) db = update_set schema name c v p db"
| "execute (DELETE_FROM name p) db = delete_from schema name p db"

fun run :: "statement list \<Rightarrow> database \<Rightarrow> database" where
  "run [] db = db"
| "run (stmt # stmts) db =
     run stmts (case execute stmt db of None \<Rightarrow> db | Some db' \<Rightarrow> db')"

section \<open>Reference definitions and example states\<close>

text \<open>
  The sum \<open>t 0 + \<dots> + t (n - 1)\<close> in JavaScript arithmetic: the partial sums start at
  \<open>0\<close> and take the terms in order.
\<close>

fun spec_sum :: "(nat \<Rightarrow> number) \<Rightarrow> nat \<Rightarrow> number" where
  "spec_sum t 0 = 0"
| "spec_sum t (Suc n) = spec_sum t n + t n"

text \<open>\<^verbatim>\<open>Number.isFinite\<close>.\<close>

definition isFinite :: "number \<Rightarrow> bool" where
  "isFinite x = (x \<noteq> NaN \<and> \<not> is_infinite x)"

text \<open>
  The value a numeric edit would store if it kept \<^verbatim>\<open>parseFloat(s)\<close> exactly when that is a
  nonzero finite number, and \<open>0\<close> otherwise.
\<close>

definition spec_stored :: "js_string \<Rightarrow> number" where
  "spec_stored s =
     (if isFinite (parseFloat s) \<and> \<not> is_zero (parseFloat s) then parseFloat s else 0)"

text \<open>The invoice of the seed data, as the review page holds it.\<close>

definition seed_invoice :: InvoiceDetail where
  "seed_invoice =
     \<lparr>id_no = Fin 1,
      supplier_name = Val (utf16 ''Acme Supplies''),
      supplier_gstin = Val (utf16 ''29ABCDE1234F1Z5''),
      invoice_no = utf16 ''INV-1001'',
      invoice_date = Val (utf16 ''2025-10-01''),
      subtotal = Fin 10000, tax = Fin 1800, total = Fin 11800,
      status = APPROVED,
      items =
        [\<lparr>sku = Val (utf16 ''SKU-RED-PEN''), description = Val (utf16 ''Red Pen''),
          qty = Fin 100, unit_price = Fin 50, tax_rate = Fin 18, line_total = Fin 5900\<rparr>,
         \<lparr>sku = Val (utf16 ''SKU-NOTE-A5''), description = Val (utf16 ''A5 Notebook''),
          qty = Fin 50, unit_price = Fin 100, tax_rate = Fin 18, line_total = Fin 5900\<rparr>]\<rparr>"

text \<open>
  The seed data: the two vendors, the invoice \<^verbatim>\<open>INV-1001\<close> and its two items, inserted in
  the order of the seed file, one row at a time.
\<close>

definition seed :: "statement list" where
  "seed =
     [INSERT_INTO ''vendors''
       [(''name'', Text ''Acme Supplies''), (''gstin'', Text ''29ABCDE1234F1Z5''),
        (''rating'', Dec (9 / 2)), (''risk_score'', Dec 12)]
       ''2025-10-01 00:00:00'',
      INSERT_INTO ''vendors''
       [(''name'', Text ''Globex Retail''), (''gstin'', Text ''27PQRSX9876L1Z3''),
        (''rating'', Dec (41 / 10)), (''risk_score'', Dec 8)]
       ''2025-10-01 00:00:00'',
      INSERT_INTO ''invoices''
       [(''supplier_name'', Text ''Acme Supplies''), (''supplier_gstin'', Text ''29ABCDE1234F1Z5''),
        (''invoice_no'', Text ''INV-1001''), (''invoice_date'', Text ''2025-10-01''),
        (''subtotal'', Dec 10000), (''tax'', Dec 1800), (''total'', Dec 11800),
        (''status'', Text ''APPROVED'')]
       ''2025-10-01 00:00:00'',
      INSERT_INTO ''invoice_items''
       [(''invoice_id'', Integer 1), (''sku'', Text ''SKU-RED-PEN''),
        (''description'', Text ''Red Pen''), (''qty'', Dec 100), (''unit_price'', Dec 50),
        (''tax_rate'', Dec 18), (''line_total'', Dec 5900)]
       ''2025-10-01 00:00:00'',
      INSERT_INTO ''invoice_items''
       [(''invoice_id'', Integer 1), (''sku'', Text ''SKU-NOTE-A5''),
        (''description'', Text ''A5 Notebook''), (''qty'', Dec 50), (''unit_price'', Dec 100),
        (''tax_rate'', Dec 18), (''line_total'', Dec 5900)]
       ''2025-10-01 00:00:00'']"

text \<open>
  A stored status if only the two values of the \<open>ENUM\<close> could be stored.
\<close>

definition spec_status :: "sql_value \<Rightarrow> bool" where
  "spec_status v = (v = Text ''PENDING'' \<or> v = Text ''APPROVED'')"

text \<open>Two more invoices: one inserted with the status \<open>NULL\<close>, one with no status listed.\<close>

definition insert_null_status :: statement where
  "insert_null_status =
     INSERT_INTO ''invoices'' [(''invoice_no'', Text ''INV-1002''), (''status'', NULL)]
       ''2025-10-02 00:00:00''"

definition insert_no_status :: statement where
  "insert_no_status =
     INSERT_INTO ''invoices'' [(''invoice_no'', Text ''INV-1003'')] ''2025-10-03 00:00:00''"

section \<open>Evaluating numbers and \<open>parseFloat\<close>\<close>

text \<open>
  Closed terms are evaluated by rewriting with the definitions. \<open>bit_length\<close> is unfolded
  on numerals only, and \<open>floor\<close> of a quotient of numerals is an integer division.
\<close>

lemma bit_length_eval:
  "bit_length 0 = 0"
  "bit_length 1 = 1"
  "bit_length (numeral n) = 1 + bit_length (numeral n div 2)"
  by (simp_all add: bit_length.simps [of 0] bit_length.simps [of 1]
      bit_length.simps [of "numeral n"])

lemma floor_numeral_div:
  "\<lfloor>numeral a / numeral b :: rat\<rfloor> = numeral a div numeral b"
  "\<lfloor>1 / numeral b :: rat\<rfloor> = 1 div numeral b"
  "\<lfloor>- (numeral a / numeral b) :: rat\<rfloor> = - numeral a div numeral b"
  using floor_divide_of_int_eq [of "numeral a" "numeral b", where ?'a = rat]
    floor_divide_of_int_eq [of 1 "numeral b", where ?'a = rat]
    floor_divide_of_int_eq [of "- numeral a" "numeral b", where ?'a = rat]
  by simp_all

lemmas number_value_eval = number_value_def signed_number_def nearest_def floor_log2_def
  below_one_def bit_length_eval pow2_def round_half_even_def floor_numeral_div
  signed_zero_def signed_infinity_def

lemmas number_op_eval = plus_number_def number_add_def times_number_def number_multiply_def
  divide_number_def number_divide_def zero_number_def is_infinite_def is_zero_def
  truthy_def or_else_def

lemmas parseFloat_eval = parseFloat_def unsigned_literal_def utf16_def is_white_space_def
  is_digit_def digits_value_def exponent_part_def pow10_def

lemma parseFloat_9000: "parseFloat (utf16 ''9000'') = Fin 9000"
  by (simp add: parseFloat_eval number_value_eval)

lemma parseFloat_Infinity: "parseFloat (utf16 ''Infinity'') = PosInfinity"
  by (simp add: parseFloat_eval signed_infinity_def)

lemma parseFloat_empty: "parseFloat [] = NaN"
  by (simp add: parseFloat_eval)

lemma parseFloat_abc: "parseFloat (utf16 ''abc'') = NaN"
  by (simp add: parseFloat_eval)

lemma parseFloat_3: "parseFloat (utf16 ''3'') = Fin 3"
  by (simp add: parseFloat_eval number_value_eval)

text \<open>
  The arithmetic is binary64, not exact: \<^verbatim>\<open>0.1 + 0.2\<close> is the Number above \<^verbatim>\<open>0.3\<close>.
\<close>

lemma parseFloat_tenths:
  "parseFloat (utf16 ''0.1'') = Fin (3602879701896397 / 36028797018963968)"
  "parseFloat (utf16 ''0.2'') = Fin (3602879701896397 / 18014398509481984)"
  "parseFloat (utf16 ''0.3'') = Fin (5404319552844595 / 18014398509481984)"
  by (simp_all add: parseFloat_eval number_value_eval)

lemma binary64_sum:
  "parseFloat (utf16 ''0.1'') + parseFloat (utf16 ''0.2'')
     = Fin (5404319552844596 / 18014398509481984)"
  "parseFloat (utf16 ''0.1'') + parseFloat (utf16 ''0.2'') \<noteq> parseFloat (utf16 ''0.3'')"
  by (simp_all add: parseFloat_tenths number_op_eval number_value_eval)

lemma seed_sum: "Fin 10000 + Fin 1800 = Fin 11800"
  by (simp add: number_op_eval number_value_eval)

lemma edited_sum: "Fin 9000 + Fin 1800 = Fin 10800"
  by (simp add: number_op_eval number_value_eval)

lemma tax_rate_18: "Fin 18 / Fin 100 = Fin (3242591731706757 / 18014398509481984)"
  by (simp add: number_op_eval number_value_eval)

lemma seed_products: "Fin 100 * Fin 50 = Fin 5000" "Fin 50 * Fin 100 = Fin 5000"
  by (simp_all add: number_op_eval number_value_eval)

lemma seed_tax: "Fin 5000 * Fin (3242591731706757 / 18014398509481984) = Fin 900"
  by (simp add: number_op_eval number_value_eval)

lemma seed_partial_sums: "Fin 0 + Fin 5000 = Fin 5000" "Fin 5000 + Fin 5000 = Fin 10000"
  "Fin 0 + Fin 900 = Fin 900" "Fin 900 + Fin 900 = Fin 1800"
  by (simp_all add: number_op_eval number_value_eval)

section \<open>Properties of the invoice review page\<close>

text \<open>With no invoice loaded every handler returns at once and the state stays \<^verbatim>\<open>null\<close>.\<close>

lemma handlers_without_invoice:
  "handleNumberChange key value None = Typed None"
  "updateItem index field value None = Typed None"
  "addItem None = None"
  "removeItem index None = None"
  "recalcTotals None = None"
  by (simp_all add: handleNumberChange_def updateItem_def addItem_def removeItem_def
      recalcTotals_def)

lemma reduce_append: "reduce f acc (xs @ ys) = reduce f (reduce f acc xs) ys"
  by (induction xs arbitrary: acc) simp_all

lemma reduce_take_spec_sum:
  "n \<le> length xs \<Longrightarrow> reduce (\<lambda>sum x. sum + g x) 0 (take n xs) = spec_sum (\<lambda>i. g (xs ! i)) n"
proof (induction n)
  case 0
  then show ?case by simp
next
  case (Suc n)
  then have "take (Suc n) xs = take n xs @ [xs ! n]"
    by (simp add: take_Suc_conv_app_nth)
  with Suc show ?case by (simp add: reduce_append)
qed

lemma reduce_spec_sum:
  "reduce (\<lambda>sum x. sum + g x) 0 xs = spec_sum (\<lambda>i. g (xs ! i)) (length xs)"
  using reduce_take_spec_sum [of "length xs" xs g] by simp

text \<open>
  C1. \<open>recalcTotals\<close> sets \<open>subtotal\<close> to the sum over the items of \<open>qty * unit_price\<close>,
  \<open>tax\<close> to the sum of \<open>qty * unit_price * (tax_rate / 100)\<close> and \<open>total\<close> to their sum,
  and changes no other field of the invoice and not the items. The sums and products
  are JavaScript's, taken in the order of the list.
\<close>

theorem recalcTotals_sums:
  "let L = items invoice;
       s = spec_sum (\<lambda>i. qty (L ! i) * unit_price (L ! i)) (length L);
       t = spec_sum (\<lambda>i. qty (L ! i) * unit_price (L ! i) * (tax_rate (L ! i) / Fin 100)) (length L)
   in recalcTotals (Some invoice) = Some (invoice\<lparr>subtotal := s, tax := t, total := s + t\<rparr>)"
  by (simp add: recalcTotals_def Let_def reduce_spec_sum)

theorem recalcTotals_sums_witness:
  "recalcTotals (Some seed_invoice) = Some seed_invoice"
proof -
  have two: "length (items seed_invoice) = Suc (Suc 0)"
    by (simp add: seed_invoice_def)
  have "recalcTotals (Some seed_invoice)
      = Some (seed_invoice\<lparr>subtotal := Fin 10000, tax := Fin 1800, total := Fin 11800\<rparr>)"
    using recalcTotals_sums [of seed_invoice]
    by (simp add: Let_def two)
      (simp add: seed_invoice_def zero_number_def tax_rate_18 seed_products seed_tax
        seed_partial_sums seed_sum)
  then show ?thesis by (simp add: seed_invoice_def)
qed

text \<open>
  C2. The equation \<open>total = subtotal + tax\<close> is not preserved by \<open>handleNumberChange\<close>: the
  seed invoice satisfies it (10000 + 1800 = 11800), and after the subtotal is edited to
  \<^verbatim>\<open>9000\<close> the total is still 11800 while subtotal and tax add up to 10800.
\<close>

theorem handleNumberChange_breaks_total:
  "\<exists>invoice field value invoice'.
     (field = Key_subtotal \<or> field = Key_tax \<or> field = Key_total)
     \<and> total invoice = subtotal invoice + tax invoice
     \<and> handleNumberChange field value (Some invoice) = Typed (Some invoice')
     \<and> total invoice' \<noteq> subtotal invoice' + tax invoice'"
proof -
  let ?invoice' = "seed_invoice\<lparr>subtotal := Fin 9000\<rparr>"
  have before: "total seed_invoice = subtotal seed_invoice + tax seed_invoice"
    by (simp add: seed_invoice_def seed_sum)
  have stored: "or_else (parseFloat (utf16 ''9000'')) 0 = Fin 9000"
    by (simp add: parseFloat_9000 or_else_def truthy_def is_zero_def)
  have edit: "handleNumberChange Key_subtotal (utf16 ''9000'') (Some seed_invoice) = Typed (Some ?invoice')"
    by (simp add: handleNumberChange_def stored)
  have after: "total ?invoice' \<noteq> subtotal ?invoice' + tax ?invoice'"
    by (simp add: seed_invoice_def edited_sum)
  from before edit after show ?thesis by blast
qed

text \<open>
  C3. For each of the fields \<open>subtotal\<close>, \<open>tax\<close> and \<open>total\<close> and every input string,
  \<open>handleNumberChange\<close> updates the named field and nothing else: an edit of \<open>subtotal\<close>
  or \<open>tax\<close> leaves \<open>total\<close> as it was, and no edit changes the items or another field.
\<close>

theorem handleNumberChange_only_named_field:
  "handleNumberChange Key_subtotal value (Some invoice)
     = Typed (Some (invoice\<lparr>subtotal := or_else (parseFloat value) 0\<rparr>))
   \<and> handleNumberChange Key_tax value (Some invoice)
     = Typed (Some (invoice\<lparr>tax := or_else (parseFloat value) 0\<rparr>))
   \<and> handleNumberChange Key_total value (Some invoice)
     = Typed (Some (invoice\<lparr>total := or_else (parseFloat value) 0\<rparr>))
   \<and> (\<forall>field invoice'.
         (field = Key_subtotal \<or> field = Key_tax \<or> field = Key_total)
         \<and> handleNumberChange field value (Some invoice) = Typed (Some invoice')
         \<longrightarrow> (field \<noteq> Key_subtotal \<longrightarrow> subtotal invoice' = subtotal invoice)
           \<and> (field \<noteq> Key_tax \<longrightarrow> tax invoice' = tax invoice)
           \<and> (field \<noteq> Key_total \<longrightarrow> total invoice' = total invoice)
           \<and> items invoice' = items invoice
           \<and> id_no invoice' = id_no invoice
           \<and> supplier_name invoice' = supplier_name invoice
           \<and> supplier_gstin invoice' = supplier_gstin invoice
           \<and> invoice_no invoice' = invoice_no invoice
           \<and> invoice_date invoice' = invoice_date invoice
           \<and> status invoice' = status invoice)"
  by (auto simp: handleNumberChange_def)

theorem handleNumberChange_only_named_field_witness:
  "handleNumberChange Key_subtotal (utf16 ''9000'') (Some seed_invoice)
     = Typed (Some (seed_invoice\<lparr>subtotal := Fin 9000\<rparr>))
   \<and> total (seed_invoice\<lparr>subtotal := Fin 9000\<rparr>) = Fin 11800
   \<and> tax (seed_invoice\<lparr>subtotal := Fin 9000\<rparr>) = Fin 1800
   \<and> length (items (seed_invoice\<lparr>subtotal := Fin 9000\<rparr>)) = 2"
proof -
  have stored: "or_else (parseFloat (utf16 ''9000'')) 0 = Fin 9000"
    by (simp add: parseFloat_9000 or_else_def truthy_def is_zero_def)
  note claim = handleNumberChange_only_named_field [of "utf16 ''9000''" seed_invoice]
  from claim have edit: "handleNumberChange Key_subtotal (utf16 ''9000'') (Some seed_invoice)
     = Typed (Some (seed_invoice\<lparr>subtotal := Fin 9000\<rparr>))"
    by (simp add: stored)
  from claim edit have "total (seed_invoice\<lparr>subtotal := Fin 9000\<rparr>) = total seed_invoice
    \<and> tax (seed_invoice\<lparr>subtotal := Fin 9000\<rparr>) = tax seed_invoice
    \<and> items (seed_invoice\<lparr>subtotal := Fin 9000\<rparr>) = items seed_invoice"
    by blast
  with edit show ?thesis by (simp add: seed_invoice_def)
qed

lemma spread_item_number_Typed:
  "spread_item_number item field v = Typed item' \<Longrightarrow>
     (field = Key_qty \<and> item' = item\<lparr>qty := v\<rparr>)
     \<or> (field = Key_unit_price \<and> item' = item\<lparr>unit_price := v\<rparr>)
     \<or> (field = Key_tax_rate \<and> item' = item\<lparr>tax_rate := v\<rparr>)
     \<or> (field = Key_line_total \<and> item' = item\<lparr>line_total := v\<rparr>)"
  by (cases field) simp_all

lemma spread_item_string_Typed:
  "spread_item_string item field v = Typed item' \<Longrightarrow>
     (field = Key_sku \<and> item' = item\<lparr>sku := Val v\<rparr>)
     \<or> (field = Key_description \<and> item' = item\<lparr>description := Val v\<rparr>)"
  by (cases field) simp_all

lemma updateItem_Typed:
  assumes "updateItem index field value (Some invoice) = Typed (Some invoice')"
  shows "index < length (items invoice)
    \<and> (\<exists>item. invoice' = invoice\<lparr>items := (items invoice)[index := item]\<rparr>)"
  using assms
  by (auto simp: updateItem_def Let_def split: if_splits typed.splits)

text \<open>
  C4. For a valid index and every input string, \<open>updateItem\<close> on \<open>qty\<close>, \<open>unit_price\<close> or
  \<open>tax_rate\<close> changes that one field of that one item: the item's \<open>line_total\<close> and its
  other fields stay, so do the other items and every field of the invoice but \<open>items\<close>,
  \<open>subtotal\<close>, \<open>tax\<close> and \<open>total\<close> among them.
\<close>

theorem updateItem_only_named_field:
  "index < length (items invoice) \<longrightarrow>
     updateItem index Key_qty value (Some invoice)
       = Typed (Some (invoice\<lparr>items := (items invoice)
           [index := (items invoice ! index)\<lparr>qty := or_else (parseFloat value) 0\<rparr>]\<rparr>))
     \<and> updateItem index Key_unit_price value (Some invoice)
       = Typed (Some (invoice\<lparr>items := (items invoice)
           [index := (items invoice ! index)\<lparr>unit_price := or_else (parseFloat value) 0\<rparr>]\<rparr>))
     \<and> updateItem index Key_tax_rate value (Some invoice)
       = Typed (Some (invoice\<lparr>items := (items invoice)
           [index := (items invoice ! index)\<lparr>tax_rate := or_else (parseFloat value) 0\<rparr>]\<rparr>))
     \<and> (\<forall>field invoice'.
           (field = Key_qty \<or> field = Key_unit_price \<or> field = Key_tax_rate)
           \<and> updateItem index field value (Some invoice) = Typed (Some invoice')
           \<longrightarrow> line_total (items invoice' ! index) = line_total (items invoice ! index)
             \<and> sku (items invoice' ! index) = sku (items invoice ! index)
             \<and> description (items invoice' ! index) = description (items invoice ! index)
             \<and> (field \<noteq> Key_qty \<longrightarrow> qty (items invoice' ! index) = qty (items invoice ! index))
             \<and> (field \<noteq> Key_unit_price
                  \<longrightarrow> unit_price (items invoice' ! index) = unit_price (items invoice ! index))
             \<and> (field \<noteq> Key_tax_rate
                  \<longrightarrow> tax_rate (items invoice' ! index) = tax_rate (items invoice ! index))
             \<and> length (items invoice') = length (items invoice)
             \<and> (\<forall>j. j \<noteq> index \<longrightarrow> items invoice' ! j = items invoice ! j)
             \<and> subtotal invoice' = subtotal invoice
             \<and> tax invoice' = tax invoice
             \<and> total invoice' = total invoice
             \<and> id_no invoice' = id_no invoice
             \<and> supplier_name invoice' = supplier_name invoice
             \<and> supplier_gstin invoice' = supplier_gstin invoice
             \<and> invoice_no invoice' = invoice_no invoice
             \<and> invoice_date invoice' = invoice_date invoice
             \<and> status invoice' = status invoice)"
  by (auto simp: updateItem_def Let_def)

theorem updateItem_only_named_field_witness:
  "(0::nat) < length (items seed_invoice)
   \<and> updateItem 0 Key_qty (utf16 ''3'') (Some seed_invoice)
       = Typed (Some (seed_invoice\<lparr>items := (items seed_invoice)
           [0 := (items seed_invoice ! 0)\<lparr>qty := Fin 3\<rparr>]\<rparr>))
   \<and> line_total ((items seed_invoice)[0 := (items seed_invoice ! 0)\<lparr>qty := Fin 3\<rparr>] ! 0) = Fin 5900
   \<and> (items seed_invoice)[0 := (items seed_invoice ! 0)\<lparr>qty := Fin 3\<rparr>] ! 1 = items seed_invoice ! 1
   \<and> total (seed_invoice\<lparr>items := (items seed_invoice)
           [0 := (items seed_invoice ! 0)\<lparr>qty := Fin 3\<rparr>]\<rparr>) = Fin 11800"
proof -
  let ?invoice' = "seed_invoice\<lparr>items := (items seed_invoice)
           [0 := (items seed_invoice ! 0)\<lparr>qty := Fin 3\<rparr>]\<rparr>"
  have valid_index: "(0::nat) < length (items seed_invoice)"
    by (simp add: seed_invoice_def)
  have stored: "or_else (parseFloat (utf16 ''3'')) 0 = Fin 3"
    by (simp add: parseFloat_3 or_else_def truthy_def is_zero_def)
  note claim = updateItem_only_named_field [of 0 seed_invoice "utf16 ''3''"]
  from claim valid_index have edit:
    "updateItem 0 Key_qty (utf16 ''3'') (Some seed_invoice) = Typed (Some ?invoice')"
    by (simp add: stored)
  from claim valid_index edit have frame:
    "line_total (items ?invoice' ! 0) = line_total (items seed_invoice ! 0)
     \<and> (\<forall>j. j \<noteq> 0 \<longrightarrow> items ?invoice' ! j = items seed_invoice ! j)
     \<and> total ?invoice' = total seed_invoice"
    by blast
  then have "line_total (items ?invoice' ! 0) = Fin 5900"
    and "items ?invoice' ! 1 = items seed_invoice ! 1"
    and "total ?invoice' = Fin 11800"
    by (simp_all add: seed_invoice_def)
  with valid_index edit show ?thesis by simp
qed

lemma filter_index_skip:
  "i < n \<Longrightarrow> map snd (filter (\<lambda>(idx, _). idx \<noteq> i) (enumerate n xs)) = xs"
  by (induction xs arbitrary: n) auto

lemma filter_index_enumerate:
  "map snd (filter (\<lambda>(idx, _). idx \<noteq> n + i) (enumerate n xs)) = take i xs @ drop (Suc i) xs"
proof (induction xs arbitrary: n i)
  case Nil
  then show ?case by simp
next
  case (Cons x xs)
  show ?case
  proof (cases i)
    case 0
    then show ?thesis by (simp add: filter_index_skip)
  next
    case (Suc j)
    with Cons [of "Suc n" j] show ?thesis by simp
  qed
qed

lemma filter_index_neq: "filter_index (\<lambda>idx. idx \<noteq> i) xs = take i xs @ drop (Suc i) xs"
  using filter_index_enumerate [of 0 i xs] by (simp add: filter_index_def)

text \<open>
  C8. The item operations do not empty the list. With exactly one item, \<open>removeItem\<close>
  at any index leaves the state as it is; with two or more, \<open>removeItem\<close> at a valid
  index removes the item at that index and no other, so one fewer remains; \<open>addItem\<close>
  appends one item with \<open>qty = 1\<close> and \<open>unit_price = tax_rate = line_total = 0\<close>. Hence
  the result of \<open>removeItem\<close>, \<open>addItem\<close> or \<open>updateItem\<close> on a state with an item has an
  item.
\<close>

theorem items_never_emptied:
  "(length (items invoice) = 1 \<longrightarrow> removeItem index (Some invoice) = Some invoice)
   \<and> (2 \<le> length (items invoice) \<and> index < length (items invoice) \<longrightarrow>
        removeItem index (Some invoice)
          = Some (invoice\<lparr>items := take index (items invoice) @ drop (Suc index) (items invoice)\<rparr>)
        \<and> length (take index (items invoice) @ drop (Suc index) (items invoice))
          = length (items invoice) - 1)
   \<and> addItem (Some invoice)
       = Some (invoice\<lparr>items := items invoice @
           [\<lparr>sku = Val [], description = Val [], qty = 1, unit_price = 0, tax_rate = 0,
             line_total = 0\<rparr>]\<rparr>)
   \<and> (items invoice \<noteq> [] \<longrightarrow>
        (\<forall>invoice'.
           removeItem index (Some invoice) = Some invoice'
           \<or> addItem (Some invoice) = Some invoice'
           \<or> updateItem index field value (Some invoice) = Typed (Some invoice')
           \<longrightarrow> items invoice' \<noteq> []))"
proof (intro conjI impI allI)
  assume "length (items invoice) = 1"
  then show "removeItem index (Some invoice) = Some invoice"
    by (simp add: removeItem_def)
next
  assume two: "2 \<le> length (items invoice) \<and> index < length (items invoice)"
  then show "removeItem index (Some invoice)
      = Some (invoice\<lparr>items := take index (items invoice) @ drop (Suc index) (items invoice)\<rparr>)"
    by (simp add: removeItem_def filter_index_neq)
  from two show "length (take index (items invoice) @ drop (Suc index) (items invoice))
      = length (items invoice) - 1"
    by auto
next
  show "addItem (Some invoice)
       = Some (invoice\<lparr>items := items invoice @
           [\<lparr>sku = Val [], description = Val [], qty = 1, unit_price = 0, tax_rate = 0,
             line_total = 0\<rparr>]\<rparr>)"
    by (simp add: addItem_def one_number_def zero_number_def)
next
  fix invoice'
  assume nonempty: "items invoice \<noteq> []"
    and step: "removeItem index (Some invoice) = Some invoice'
           \<or> addItem (Some invoice) = Some invoice'
           \<or> updateItem index field value (Some invoice) = Typed (Some invoice')"
  from step show "items invoice' \<noteq> []"
  proof (elim disjE)
    assume removed: "removeItem index (Some invoice) = Some invoice'"
    show ?thesis
    proof (cases "length (items invoice) = 1")
      case True
      with removed nonempty show ?thesis by (auto simp: removeItem_def)
    next
      case False
      with nonempty have "2 \<le> length (items invoice)"
        by (cases "items invoice") (auto simp: Suc_le_eq)
      moreover from removed False
      have "items invoice' = take index (items invoice) @ drop (Suc index) (items invoice)"
        by (auto simp: removeItem_def filter_index_neq)
      ultimately show ?thesis by (cases index) auto
    qed
  next
    assume "addItem (Some invoice) = Some invoice'"
    then show ?thesis by (auto simp: addItem_def)
  next
    assume "updateItem index field value (Some invoice) = Typed (Some invoice')"
    from updateItem_Typed [OF this] nonempty show ?thesis by auto
  qed
qed

theorem items_never_emptied_witness:
  "removeItem 0 (Some (seed_invoice\<lparr>items := [items seed_invoice ! 0]\<rparr>))
     = Some (seed_invoice\<lparr>items := [items seed_invoice ! 0]\<rparr>)
   \<and> removeItem 0 (Some seed_invoice) = Some (seed_invoice\<lparr>items := [items seed_invoice ! 1]\<rparr>)
   \<and> items (seed_invoice\<lparr>items := [items seed_invoice ! 1]\<rparr>) \<noteq> []"
proof -
  let ?one = "seed_invoice\<lparr>items := [items seed_invoice ! 0]\<rparr>"
  have "length (items ?one) = 1" by simp
  with items_never_emptied [of ?one 0]
  have single: "removeItem 0 (Some ?one) = Some ?one" by blast
  have "2 \<le> length (items seed_invoice) \<and> 0 < length (items seed_invoice)"
    by (simp add: seed_invoice_def)
  with items_never_emptied [of seed_invoice 0]
  have "removeItem 0 (Some seed_invoice)
      = Some (seed_invoice\<lparr>items := take 0 (items seed_invoice) @ drop (Suc 0) (items seed_invoice)\<rparr>)"
    by blast
  then have removed: "removeItem 0 (Some seed_invoice) = Some (seed_invoice\<lparr>items := [items seed_invoice ! 1]\<rparr>)"
    by (simp add: seed_invoice_def)
  have "items seed_invoice \<noteq> []" by (simp add: seed_invoice_def)
  with items_never_emptied [of seed_invoice 0] removed
  have "items (seed_invoice\<lparr>items := [items seed_invoice ! 1]\<rparr>) \<noteq> []" by blast
  with single removed show ?thesis by blast
qed

text \<open>
  C10, as amended. A numeric edit is defined for every input string and never stores
  \<open>NaN\<close>: \<open>handleNumberChange\<close> on \<open>subtotal\<close>, \<open>tax\<close> or \<open>total\<close>, and \<open>updateItem\<close> on
  \<open>qty\<close>, \<open>unit_price\<close>, \<open>tax_rate\<close> or \<open>line_total\<close> of an item of the list, store
  \<^verbatim>\<open>parseFloat(s)\<close> when that is neither \<open>NaN\<close> nor a zero (an infinity included), and
  \<open>0\<close> otherwise.
\<close>

theorem numeric_edit_stores_number:
  "(let v = (if parseFloat s = NaN \<or> is_zero (parseFloat s) then 0 else parseFloat s) in
      v \<noteq> NaN
      \<and> handleNumberChange Key_subtotal s (Some invoice) = Typed (Some (invoice\<lparr>subtotal := v\<rparr>))
      \<and> handleNumberChange Key_tax s (Some invoice) = Typed (Some (invoice\<lparr>tax := v\<rparr>))
      \<and> handleNumberChange Key_total s (Some invoice) = Typed (Some (invoice\<lparr>total := v\<rparr>))
      \<and> (index < length (items invoice) \<longrightarrow>
            updateItem index Key_qty s (Some invoice)
              = Typed (Some (invoice\<lparr>items := (items invoice)
                  [index := (items invoice ! index)\<lparr>qty := v\<rparr>]\<rparr>))
            \<and> updateItem index Key_unit_price s (Some invoice)
              = Typed (Some (invoice\<lparr>items := (items invoice)
                  [index := (items invoice ! index)\<lparr>unit_price := v\<rparr>]\<rparr>))
            \<and> updateItem index Key_tax_rate s (Some invoice)
              = Typed (Some (invoice\<lparr>items := (items invoice)
                  [index := (items invoice ! index)\<lparr>tax_rate := v\<rparr>]\<rparr>))
            \<and> updateItem index Key_line_total s (Some invoice)
              = Typed (Some (invoice\<lparr>items := (items invoice)
                  [index := (items invoice ! index)\<lparr>line_total := v\<rparr>]\<rparr>))))"
  by (simp add: Let_def handleNumberChange_def updateItem_def or_else_def truthy_def
      zero_number_def)

theorem numeric_edit_stores_number_witness:
  "(1::nat) < length (items seed_invoice)
   \<and> parseFloat [] = NaN
   \<and> handleNumberChange Key_tax [] (Some seed_invoice) = Typed (Some (seed_invoice\<lparr>tax := Fin 0\<rparr>))
   \<and> updateItem 1 Key_line_total [] (Some seed_invoice)
       = Typed (Some (seed_invoice\<lparr>items := (items seed_invoice)
           [1 := (items seed_invoice ! 1)\<lparr>line_total := Fin 0\<rparr>]\<rparr>))"
proof -
  have valid_index: "(1::nat) < length (items seed_invoice)"
    by (simp add: seed_invoice_def)
  with numeric_edit_stores_number [of "[]" seed_invoice 1] parseFloat_empty
  show ?thesis by (simp add: Let_def zero_number_def)
qed

text \<open>
  C10 as stated fails: \<^verbatim>\<open>parseFloat("Infinity")\<close> is not a finite number, so \<open>0\<close> would
  be stored, and \<open>handleNumberChange\<close> stores \<open>Infinity\<close>.
\<close>

theorem numeric_edit_stores_infinity:
  "parseFloat (utf16 ''Infinity'') = PosInfinity
   \<and> \<not> isFinite (parseFloat (utf16 ''Infinity''))
   \<and> spec_stored (utf16 ''Infinity'') = Fin 0
   \<and> handleNumberChange Key_subtotal (utf16 ''Infinity'') (Some seed_invoice)
       = Typed (Some (seed_invoice\<lparr>subtotal := PosInfinity\<rparr>))
   \<and> subtotal (seed_invoice\<lparr>subtotal := PosInfinity\<rparr>) \<noteq> spec_stored (utf16 ''Infinity'')"
  by (simp add: parseFloat_Infinity isFinite_def is_infinite_def spec_stored_def zero_number_def
      handleNumberChange_def or_else_def truthy_def is_zero_def)

section \<open>Properties of the dashboard\<close>

text \<open>
  C9. With no file selected \<open>onUpload\<close> sets the message \<^verbatim>\<open>Please select a file\<close>, and with
  a file of more than \<open>5 * 1024 * 1024\<close> bytes the message
  \<^verbatim>\<open>File size must be less than 5MB\<close>; in both cases it sends no request and leaves the
  invoice list as it was, whatever the backend would answer.
\<close>

theorem onUpload_rejects:
  "(file st = None \<longrightarrow>
      onUpload api st = (st\<lparr>msg := utf16 ''Please select a file'', msgType := error\<rparr>, [])
      \<and> invoices (fst (onUpload api st)) = invoices st)
   \<and> (\<forall>f. file st = Some f \<and> 5 * 1024 * 1024 < file_size f \<longrightarrow>
         onUpload api st
           = (st\<lparr>msg := utf16 ''File size must be less than 5MB'', msgType := error\<rparr>, [])
         \<and> invoices (fst (onUpload api st)) = invoices st)"
  by (simp add: onUpload_def)

theorem onUpload_rejects_witness:
  "onUpload \<lparr>post_extract = (\<lambda>_. Extracted (utf16 ''INV-1002'') (utf16 ''10.00'')),
             get_invoices = Loaded None\<rparr>
            \<lparr>file = Some \<lparr>file_name = utf16 ''scan.pdf'', file_size = 5242881\<rparr>, busy = False,
             invoices = [], msg = [], msgType = info\<rparr>
     = (\<lparr>file = Some \<lparr>file_name = utf16 ''scan.pdf'', file_size = 5242881\<rparr>, busy = False,
         invoices = [], msg = utf16 ''File size must be less than 5MB'', msgType = error\<rparr>, [])
   \<and> onUpload \<lparr>post_extract = (\<lambda>_. Extracted (utf16 ''INV-1002'') (utf16 ''10.00'')),
               get_invoices = Loaded None\<rparr>
              \<lparr>file = None, busy = False, invoices = [], msg = [], msgType = info\<rparr>
     = (\<lparr>file = None, busy = False, invoices = [], msg = utf16 ''Please select a file'',
         msgType = error\<rparr>, [])"
proof -
  let ?api = "\<lparr>post_extract = (\<lambda>_. Extracted (utf16 ''INV-1002'') (utf16 ''10.00'')),
             get_invoices = Loaded None\<rparr>"
  let ?f = "\<lparr>file_name = utf16 ''scan.pdf'', file_size = 5242881\<rparr>"
  let ?big = "\<lparr>file = Some ?f, busy = False, invoices = [], msg = [], msgType = info\<rparr>"
  let ?none = "\<lparr>file = None, busy = False, invoices = [], msg = [], msgType = info\<rparr>"
  have "file ?big = Some ?f \<and> 5 * 1024 * 1024 < file_size ?f" by simp
  with onUpload_rejects [of ?big ?api]
  have "onUpload ?api ?big
      = (?big\<lparr>msg := utf16 ''File size must be less than 5MB'', msgType := error\<rparr>, [])"
    by blast
  moreover have "file ?none = None" by simp
  with onUpload_rejects [of ?none ?api]
  have "onUpload ?api ?none = (?none\<lparr>msg := utf16 ''Please select a file'', msgType := error\<rparr>, [])"
    by blast
  ultimately show ?thesis by simp
qed

text \<open>A file within the limit is sent: the first request is the upload.\<close>

lemma onUpload_sends:
  "file st = Some f \<Longrightarrow> file_size f \<le> 5 * 1024 * 1024 \<Longrightarrow>
     \<exists>rest. snd (onUpload api st) = POST_extract f # rest"
  by (simp add: onUpload_def Let_def split: extract_response.splits)

section \<open>Properties of the schema\<close>

lemma table_names [simp]:
  "table_name vendors = ''vendors''"
  "table_name invoices_table = ''invoices''"
  "table_name invoice_items = ''invoice_items''"
  by (simp_all add: vendors_def invoices_table_def invoice_items_def)

lemma table_foreign_keys [simp]:
  "foreign_keys vendors = []"
  "foreign_keys invoices_table = []"
  "foreign_keys invoice_items = [invoice_fk]"
  by (simp_all add: vendors_def invoices_table_def invoice_items_def)

lemma invoice_fk_simps [simp]:
  "fk_column invoice_fk = ''invoice_id''"
  "references_table invoice_fk = ''invoices''"
  "references_column invoice_fk = ''id''"
  "on_delete invoice_fk = CASCADE"
  by (simp_all add: invoice_fk_def)

lemma keys_unique_schema [simp]:
  "keys_unique vendors rows = distinct (map (key_of vendors) rows)"
  "keys_unique invoices_table rows = distinct (map (key_of invoices_table) rows)"
  "keys_unique invoice_items rows = distinct (map (key_of invoice_items) rows)"
  by (simp_all add: keys_unique_def vendors_def invoices_table_def invoice_items_def col_def)

lemma find_table_schema:
  "find_table schema name = Some t \<Longrightarrow>
     (name = ''vendors'' \<and> t = vendors) \<or> (name = ''invoices'' \<and> t = invoices_table)
     \<or> (name = ''invoice_items'' \<and> t = invoice_items)"
  by (auto simp: find_table_def schema_def split: if_splits)

lemma find_table_invoices: "find_table schema ''invoices'' = Some invoices_table"
  by (simp add: find_table_def schema_def)

lemma referencing_vendors: "referencing schema ''vendors'' = []"
  by (simp add: referencing_def schema_def)

lemma referencing_invoice_items: "referencing schema ''invoice_items'' = []"
  by (simp add: referencing_def schema_def)

lemma referencing_invoices: "referencing schema ''invoices'' = [(''invoice_items'', invoice_fk)]"
  by (simp add: referencing_def schema_def)

lemma delete_rows_leaf:
  assumes "0 < n" and "referencing s name = []"
  shows "delete_rows n s name p db
       = Some (db\<lparr>contents := (contents db)(name := filter (\<lambda>r. \<not> p r) (contents db name))\<rparr>)"
proof -
  from assms(1) obtain m where "n = Suc m" by (cases n) auto
  with assms(2) show ?thesis by (simp add: Let_def)
qed

lemma delete_rows_invoices:
  assumes "1 < n"
  shows "delete_rows n schema ''invoices'' p db
     = Some (db\<lparr>contents := (contents db)
         (''invoices'' := filter (\<lambda>r. \<not> p r) (contents db ''invoices''),
          ''invoice_items'' :=
             filter (\<lambda>r. \<not> refers_to invoice_fk (filter p (contents db ''invoices'')) r)
                    (contents db ''invoice_items''))\<rparr>)"
proof -
  from assms obtain m where n: "n = Suc m" and m: "0 < m" by (cases n) auto
  have "delete_rows (Suc m) schema ''invoices'' p db
      = delete_rows m schema ''invoice_items''
          (refers_to invoice_fk (filter p (contents db ''invoices'')))
          (db\<lparr>contents := (contents db)
             (''invoices'' := filter (\<lambda>r. \<not> p r) (contents db ''invoices''))\<rparr>)"
    by (simp add: Let_def referencing_invoices)
  also have "\<dots> = Some (db\<lparr>contents := (contents db)
         (''invoices'' := filter (\<lambda>r. \<not> p r) (contents db ''invoices''),
          ''invoice_items'' :=
             filter (\<lambda>r. \<not> refers_to invoice_fk (filter p (contents db ''invoices'')) r)
                    (contents db ''invoice_items''))\<rparr>)"
    by (simp add: delete_rows_leaf [OF m referencing_invoice_items])
  finally show ?thesis by (simp add: n)
qed

lemma valid_schema:
  "valid schema db \<longleftrightarrow>
     (\<forall>r \<in> set (contents db ''vendors''). \<forall>c \<in> set (columns vendors). column_ok c r)
     \<and> distinct (map (key_of vendors) (contents db ''vendors''))
     \<and> (\<forall>r \<in> set (contents db ''invoices''). \<forall>c \<in> set (columns invoices_table). column_ok c r)
     \<and> distinct (map (key_of invoices_table) (contents db ''invoices''))
     \<and> (\<forall>r \<in> set (contents db ''invoice_items'').
           (\<forall>c \<in> set (columns invoice_items). column_ok c r) \<and> reference_ok db invoice_fk r)
     \<and> distinct (map (key_of invoice_items) (contents db ''invoice_items''))"
  by (auto simp: valid_def schema_def table_ok_def)

lemma reference_ok_invoice_fk:
  "reference_ok db invoice_fk r \<longleftrightarrow>
     cell r ''invoice_id'' = NULL
     \<or> (\<exists>p \<in> set (contents db ''invoices''). cell p ''id'' = cell r ''invoice_id'')"
  by (simp add: reference_ok_def)

text \<open>
  Every statement keeps the declared constraints: \<open>INSERT\<close> and \<open>UPDATE\<close> check them, and
  a \<open>DELETE\<close> takes the referencing items along.
\<close>

lemma valid_delete_vendors:
  assumes "valid schema db"
  shows "valid schema (db\<lparr>contents := (contents db)(''vendors'' := filter q (contents db ''vendors''))\<rparr>)"
  using assms by (auto simp: valid_schema reference_ok_invoice_fk distinct_map_filter)

lemma valid_delete_invoice_items:
  assumes "valid schema db"
  shows "valid schema
    (db\<lparr>contents := (contents db)(''invoice_items'' := filter q (contents db ''invoice_items''))\<rparr>)"
  using assms by (auto simp: valid_schema reference_ok_invoice_fk distinct_map_filter)

lemma valid_delete_invoices:
  assumes "valid schema db"
  shows "valid schema
    (db\<lparr>contents := (contents db)
         (''invoices'' := filter (\<lambda>r. \<not> p r) (contents db ''invoices''),
          ''invoice_items'' :=
             filter (\<lambda>r. \<not> refers_to invoice_fk (filter p (contents db ''invoices'')) r)
                    (contents db ''invoice_items''))\<rparr>)"
proof -
  let ?gone = "filter p (contents db ''invoices'')"
  have kept: "\<exists>q \<in> set (contents db ''invoices''). \<not> p q \<and> cell q ''id'' = cell r ''invoice_id''"
    if item: "r \<in> set (contents db ''invoice_items'')"
      and stays: "\<not> refers_to invoice_fk ?gone r"
      and set: "cell r ''invoice_id'' \<noteq> NULL" for r
  proof -
    from assms item set obtain q where q: "q \<in> set (contents db ''invoices'')"
      and same: "cell q ''id'' = cell r ''invoice_id''"
      by (auto simp: valid_schema reference_ok_invoice_fk)
    have "\<not> p q"
    proof
      assume "p q"
      with q same have "cell r ''invoice_id'' \<in> set (map (\<lambda>g. cell g ''id'') ?gone)"
        by force
      with set stays show False by (simp add: refers_to_def)
    qed
    with q same show ?thesis by blast
  qed
  from assms show ?thesis
    by (auto simp: valid_schema reference_ok_invoice_fk distinct_map_filter dest: kept)
qed

lemma valid_empty: "valid schema empty_database"
  by (simp add: valid_schema empty_database_def)

lemma insert_into_valid: "insert_into s name given now db = Some db' \<Longrightarrow> valid s db'"
  by (auto simp: insert_into_def Let_def split: option.splits if_splits)

lemma update_set_valid: "update_set s name c v p db = Some db' \<Longrightarrow> valid s db'"
  by (auto simp: update_set_def Let_def split: option.splits if_splits)

lemma delete_from_valid:
  assumes "delete_from schema name p db = Some db'" and "valid schema db"
  shows "valid schema db'"
proof -
  from assms(1) obtain t where found: "find_table schema name = Some t"
    and rows: "delete_rows 15 schema name p db = Some db'"
    by (auto simp: delete_from_def split: option.splits)
  from find_table_schema [OF found] show ?thesis
  proof (elim disjE conjE)
    assume "name = ''vendors''"
    with rows assms(2) show ?thesis
      by (auto simp: delete_rows_leaf referencing_vendors valid_delete_vendors)
  next
    assume "name = ''invoices''"
    with rows assms(2) show ?thesis
      by (auto simp: delete_rows_invoices valid_delete_invoices)
  next
    assume "name = ''invoice_items''"
    with rows assms(2) show ?thesis
      by (auto simp: delete_rows_leaf referencing_invoice_items valid_delete_invoice_items)
  qed
qed

lemma execute_valid:
  assumes "execute stmt db = Some db'" and "valid schema db"
  shows "valid schema db'"
  using assms
  by (cases stmt) (auto intro: insert_into_valid update_set_valid delete_from_valid)

lemma run_valid: "valid schema db \<Longrightarrow> valid schema (run stmts db)"
proof (induction stmts arbitrary: db)
  case Nil
  then show ?case by simp
next
  case (Cons stmt stmts)
  then have "valid schema (case execute stmt db of None \<Rightarrow> db | Some db' \<Rightarrow> db')"
    by (auto split: option.splits intro: execute_valid)
  from Cons.IH [OF this] show ?case by simp
qed

lemma script_valid: "valid schema (run stmts empty_database)"
  by (rule run_valid) (rule valid_empty)

lemma key_of_invoices: "key_of invoices_table r = [cell r ''id'']"
  by (simp add: key_of_def invoices_table_def col_def)

lemma invoice_id_column:
  "(col ''invoice_id'' INTEGER)\<lparr>not_null := True\<rparr> \<in> set (columns invoice_items)"
  by (simp add: invoice_items_def)

lemma status_column:
  "(col ''status'' (ENUM [''PENDING'', ''APPROVED'']))
      \<lparr>default_clause := Some (DEFAULT (Text ''PENDING''))\<rparr> \<in> set (columns invoices_table)"
  by (simp add: invoices_table_def)

lemma item_invoice_id:
  assumes "valid schema db" and "r \<in> set (contents db ''invoice_items'')"
  shows "\<exists>k. cell r ''invoice_id'' = Integer k"
proof -
  from assms invoice_id_column
  have "column_ok ((col ''invoice_id'' INTEGER)\<lparr>not_null := True\<rparr>) r"
    by (auto simp: valid_schema)
  then show ?thesis
    by (cases "cell r ''invoice_id''") (auto simp: column_ok_def col_def)
qed

lemma item_invoice_exists:
  assumes "valid schema db" and "r \<in> set (contents db ''invoice_items'')"
    and "cell r ''invoice_id'' = Integer k"
  shows "\<exists>p \<in> set (contents db ''invoices''). cell p ''id'' = Integer k"
proof -
  from assms(1,2) have "reference_ok db invoice_fk r"
    by (simp add: valid_schema)
  with assms(3) show ?thesis
    by (simp add: reference_ok_invoice_fk)
qed

lemma invoice_id_unique:
  assumes "valid schema db"
    and "p \<in> set (contents db ''invoices'')" and "q \<in> set (contents db ''invoices'')"
    and "cell p ''id'' = cell q ''id''"
  shows "p = q"
proof -
  from assms(1) have "distinct (map (key_of invoices_table) (contents db ''invoices''))"
    by (simp add: valid_schema)
  then have "inj_on (key_of invoices_table) (set (contents db ''invoices''))"
    by (simp add: distinct_map)
  moreover from assms(4) have "key_of invoices_table p = key_of invoices_table q"
    by (simp add: key_of_invoices)
  ultimately show ?thesis
    using assms(2,3) by (rule inj_onD)
qed

lemma refers_to_deleted_invoice:
  assumes "valid schema db" and "r \<in> set (contents db ''invoice_items'')"
  shows "refers_to invoice_fk (filter (\<lambda>r. cell r ''id'' = Integer k) (contents db ''invoices'')) r
    \<longleftrightarrow> cell r ''invoice_id'' = Integer k"
proof
  assume "refers_to invoice_fk (filter (\<lambda>r. cell r ''id'' = Integer k) (contents db ''invoices'')) r"
  then show "cell r ''invoice_id'' = Integer k"
    by (auto simp: refers_to_def)
next
  assume k: "cell r ''invoice_id'' = Integer k"
  with item_invoice_exists [OF assms] obtain p
    where "p \<in> set (contents db ''invoices'')" and "cell p ''id'' = Integer k"
    by blast
  with k show "refers_to invoice_fk (filter (\<lambda>r. cell r ''id'' = Integer k) (contents db ''invoices'')) r"
    by (force simp: refers_to_def)
qed

lemma items_have_one_invoice:
  assumes valid: "valid schema db" and r: "r \<in> set (contents db ''invoice_items'')"
  shows "\<exists>i. cell r ''invoice_id'' = Integer i
    \<and> (\<exists>!p. p \<in> set (contents db ''invoices'') \<and> cell p ''id'' = Integer i)"
proof -
  from item_invoice_id [OF valid r] obtain i where i: "cell r ''invoice_id'' = Integer i" ..
  from item_invoice_exists [OF valid r i] obtain p
    where p: "p \<in> set (contents db ''invoices'')" "cell p ''id'' = Integer i" by blast
  have "\<exists>!p. p \<in> set (contents db ''invoices'') \<and> cell p ''id'' = Integer i"
  proof (rule ex1I [of _ p])
    from p show "p \<in> set (contents db ''invoices'') \<and> cell p ''id'' = Integer i" by simp
  next
    fix q
    assume "q \<in> set (contents db ''invoices'') \<and> cell q ''id'' = Integer i"
    with p show "q = p" by (auto intro: invoice_id_unique [OF valid])
  qed
  with i show ?thesis by blast
qed

lemma delete_invoice:
  assumes valid: "valid schema db"
  shows "\<exists>db'. execute (DELETE_FROM ''invoices'' (\<lambda>r. cell r ''id'' = Integer k)) db = Some db'
    \<and> contents db' ''invoice_items''
        = filter (\<lambda>r. cell r ''invoice_id'' \<noteq> Integer k) (contents db ''invoice_items'')
    \<and> contents db' ''invoices''
        = filter (\<lambda>r. cell r ''id'' \<noteq> Integer k) (contents db ''invoices'')
    \<and> contents db' ''vendors'' = contents db ''vendors''"
proof -
  let ?gone = "filter (\<lambda>r. cell r ''id'' = Integer k) (contents db ''invoices'')"
  let ?db' = "db\<lparr>contents := (contents db)
         (''invoices'' := filter (\<lambda>r. \<not> cell r ''id'' = Integer k) (contents db ''invoices''),
          ''invoice_items'' :=
             filter (\<lambda>r. \<not> refers_to invoice_fk ?gone r) (contents db ''invoice_items''))\<rparr>"
  have "execute (DELETE_FROM ''invoices'' (\<lambda>r. cell r ''id'' = Integer k)) db = Some ?db'"
    by (simp add: delete_from_def find_table_invoices delete_rows_invoices)
  moreover have "contents ?db' ''invoice_items''
      = filter (\<lambda>r. cell r ''invoice_id'' \<noteq> Integer k) (contents db ''invoice_items'')"
    using refers_to_deleted_invoice [OF valid]
    by (auto intro: filter_cong)
  moreover have "contents ?db' ''invoices''
      = filter (\<lambda>r. cell r ''id'' \<noteq> Integer k) (contents db ''invoices'')"
    by simp
  moreover have "contents ?db' ''vendors'' = contents db ''vendors''"
    by simp
  ultimately show ?thesis by blast
qed

text \<open>
  C6. In every database a script builds from the empty one, each row of
  \<open>invoice_items\<close> has an \<open>invoice_id\<close> that is not \<open>NULL\<close> and is the \<open>id\<close> of exactly one
  row of \<open>invoices\<close>: the column is declared \<open>NOT NULL\<close> with a foreign key into
  \<open>invoices\<close>, whose \<open>id\<close> is the primary key. Deleting the invoice with id \<open>k\<close> succeeds
  and deletes its items with it: no row of \<open>invoice_items\<close> with \<open>invoice_id = k\<close>
  remains, and the items of the other invoices stay.
\<close>

theorem invoice_items_cascade:
  "(col ''invoice_id'' INTEGER)\<lparr>not_null := True\<rparr> \<in> set (columns invoice_items)
   \<and> foreign_keys invoice_items = [invoice_fk]
   \<and> references_table invoice_fk = table_name invoices_table
   \<and> on_delete invoice_fk = CASCADE
   \<and> (\<forall>r \<in> set (contents (run stmts empty_database) ''invoice_items'').
         \<exists>i. cell r ''invoice_id'' = Integer i
           \<and> (\<exists>!p. p \<in> set (contents (run stmts empty_database) ''invoices'')
                    \<and> cell p ''id'' = Integer i))
   \<and> (\<exists>db'. execute (DELETE_FROM ''invoices'' (\<lambda>r. cell r ''id'' = Integer k))
                (run stmts empty_database) = Some db'
         \<and> (\<forall>r \<in> set (contents db' ''invoice_items''). cell r ''invoice_id'' \<noteq> Integer k)
         \<and> contents db' ''invoice_items''
             = filter (\<lambda>r. cell r ''invoice_id'' \<noteq> Integer k)
                 (contents (run stmts empty_database) ''invoice_items''))"
proof (intro conjI)
  let ?db = "run stmts empty_database"
  have valid: "valid schema ?db" by (rule script_valid)
  show "(col ''invoice_id'' INTEGER)\<lparr>not_null := True\<rparr> \<in> set (columns invoice_items)"
    by (rule invoice_id_column)
  show "foreign_keys invoice_items = [invoice_fk]"
    and "references_table invoice_fk = table_name invoices_table"
    and "on_delete invoice_fk = CASCADE"
    by simp_all
  show "\<forall>r \<in> set (contents ?db ''invoice_items'').
         \<exists>i. cell r ''invoice_id'' = Integer i
           \<and> (\<exists>!p. p \<in> set (contents ?db ''invoices'') \<and> cell p ''id'' = Integer i)"
    using items_have_one_invoice [OF valid] by blast
  from delete_invoice [OF valid, of k] obtain db'
    where deleted: "execute (DELETE_FROM ''invoices'' (\<lambda>r. cell r ''id'' = Integer k)) ?db = Some db'"
      and left: "contents db' ''invoice_items''
        = filter (\<lambda>r. cell r ''invoice_id'' \<noteq> Integer k) (contents ?db ''invoice_items'')"
    by blast
  from left have "\<forall>r \<in> set (contents db' ''invoice_items''). cell r ''invoice_id'' \<noteq> Integer k"
    by simp
  with deleted left
  show "\<exists>db'. execute (DELETE_FROM ''invoices'' (\<lambda>r. cell r ''id'' = Integer k)) ?db = Some db'
         \<and> (\<forall>r \<in> set (contents db' ''invoice_items''). cell r ''invoice_id'' \<noteq> Integer k)
         \<and> contents db' ''invoice_items''
             = filter (\<lambda>r. cell r ''invoice_id'' \<noteq> Integer k) (contents ?db ''invoice_items'')"
    by blast
qed

lemmas engine_eval = insert_into_def find_table_def schema_def vendors_def
  invoices_table_def invoice_items_def invoice_fk_def col_def complete_row_def omitted_def
  next_counter_def cell_def valid_def table_ok_def column_ok_def reference_ok_def key_of_def
  keys_unique_def empty_database_def seed_def Let_def

lemma seed_invoice_items:
  "map (\<lambda>r. (cell r ''id'', cell r ''invoice_id'')) (contents (run seed empty_database) ''invoice_items'')
     = [(Integer 1, Integer 1), (Integer 2, Integer 1)]"
  by (simp add: engine_eval)

theorem invoice_items_cascade_witness:
  "map (\<lambda>r. cell r ''invoice_id'') (contents (run seed empty_database) ''invoice_items'')
       = [Integer 1, Integer 1]
   \<and> (\<exists>db'. execute (DELETE_FROM ''invoices'' (\<lambda>r. cell r ''id'' = Integer 1))
                (run seed empty_database) = Some db'
         \<and> contents db' ''invoice_items'' = [])"
proof -
  let ?db = "run seed empty_database"
  have ids: "map (\<lambda>r. cell r ''invoice_id'') (contents ?db ''invoice_items'')
       = [Integer 1, Integer 1]"
    using arg_cong [OF seed_invoice_items, of "map snd"] by (simp add: comp_def)
  then have "set (map (\<lambda>r. cell r ''invoice_id'') (contents ?db ''invoice_items'')) = {Integer 1}"
    by simp
  then have all: "\<forall>r \<in> set (contents ?db ''invoice_items''). cell r ''invoice_id'' = Integer 1"
    by auto
  from invoice_items_cascade [of seed 1]
  obtain db' where "execute (DELETE_FROM ''invoices'' (\<lambda>r. cell r ''id'' = Integer 1)) ?db = Some db'"
    and "contents db' ''invoice_items''
       = filter (\<lambda>r. cell r ''invoice_id'' \<noteq> Integer 1) (contents ?db ''invoice_items'')"
    by blast
  moreover from all
  have "filter (\<lambda>r. cell r ''invoice_id'' \<noteq> Integer 1) (contents ?db ''invoice_items'') = []"
    by (simp add: filter_empty_conv)
  ultimately show ?thesis using ids by auto
qed

text \<open>
  What the declaration of the column \<open>status\<close> does to the rows: a stored status is
  \<open>NULL\<close> (the column is not declared \<open>NOT NULL\<close>) or one of the two values, and an
  \<open>INSERT\<close> that does not list the column stores \<open>PENDING\<close>.
\<close>

lemma stored_status:
  assumes "r \<in> set (contents (run stmts empty_database) ''invoices'')"
  shows "cell r ''status'' = NULL \<or> cell r ''status'' = Text ''PENDING''
    \<or> cell r ''status'' = Text ''APPROVED''"
proof -
  from assms status_column script_valid [of stmts]
  have "column_ok ((col ''status'' (ENUM [''PENDING'', ''APPROVED'']))
      \<lparr>default_clause := Some (DEFAULT (Text ''PENDING''))\<rparr>) r"
    by (auto simp: valid_schema)
  then show ?thesis
    by (cases "cell r ''status''") (auto simp: column_ok_def col_def)
qed

lemma default_status:
  assumes "execute (INSERT_INTO ''invoices'' given now) db = Some db'"
    and "''status'' \<notin> set (map fst given)"
  shows "cell (last (contents db' ''invoices'')) ''status'' = Text ''PENDING''"
proof -
  from assms(2) have "map_of given ''status'' = None"
    by (simp add: map_of_eq_None_iff)
  with assms(1) show ?thesis
    by (auto simp: insert_into_def find_table_def schema_def Let_def complete_row_def
        invoices_table_def col_def omitted_def cell_def split: if_splits)
qed

lemmas insert_eval = insert_into_def find_table_def schema_def vendors_def
  invoices_table_def invoice_items_def invoice_fk_def col_def complete_row_def omitted_def
  next_counter_def cell_def valid_def table_ok_def column_ok_def reference_ok_def key_of_def
  keys_unique_def empty_database_def Let_def

lemma null_status_rows:
  "contents (run [insert_null_status] empty_database) ''invoices''
     = [[(''id'', Integer 1), (''supplier_name'', NULL), (''supplier_gstin'', NULL),
         (''invoice_no'', Text ''INV-1002''), (''invoice_date'', NULL), (''subtotal'', NULL),
         (''tax'', NULL), (''total'', NULL), (''status'', NULL),
         (''created_at'', Text ''2025-10-02 00:00:00'')]]"
  by (simp add: insert_null_status_def insert_eval)

lemma no_status_inserted: "\<exists>db'. execute insert_no_status empty_database = Some db'"
  by (simp add: insert_no_status_def insert_eval)

lemma seed_invoices:
  "map (\<lambda>r. (cell r ''id'', cell r ''status'')) (contents (run seed empty_database) ''invoices'')
     = [(Integer 1, Text ''APPROVED'')]"
  by (simp add: engine_eval)

text \<open>
  C5, as amended. The review page's status type has exactly the two values \<open>PENDING\<close>
  and \<open>APPROVED\<close>, and the options of its status select are these two in this order.
  The column \<open>status\<close> of the table \<open>invoices\<close> is an \<open>ENUM\<close> of the same two values with
  the default \<open>PENDING\<close>, and it is not declared \<open>NOT NULL\<close>: in every database a script
  builds, the status of each invoice is \<open>PENDING\<close>, \<open>APPROVED\<close> or \<open>NULL\<close>, and an
  \<open>INSERT\<close> that does not list the column stores \<open>PENDING\<close>.
\<close>

theorem invoice_status_values:
  "(UNIV :: status set) = {PENDING, APPROVED}
   \<and> statusOptions = [PENDING, APPROVED]
   \<and> map status_literal statusOptions = [''PENDING'', ''APPROVED'']
   \<and> find (\<lambda>c. column_name c = ''status'') (columns invoices_table)
       = Some \<lparr>column_name = ''status'',
               data_type = ENUM (map status_literal statusOptions),
               not_null = False,
               default_clause = Some (DEFAULT (Text (status_literal PENDING))),
               auto_increment = False, primary_key = False\<rparr>
   \<and> (\<forall>r \<in> set (contents (run stmts empty_database) ''invoices'').
         cell r ''status'' = NULL \<or> spec_status (cell r ''status''))
   \<and> (\<forall>given now db db'.
         execute (INSERT_INTO ''invoices'' given now) db = Some db'
         \<and> ''status'' \<notin> set (map fst given)
         \<longrightarrow> cell (last (contents db' ''invoices'')) ''status'' = Text ''PENDING'')"
proof (intro conjI)
  show "(UNIV :: status set) = {PENDING, APPROVED}"
    by (auto intro: status.exhaust)
  show "statusOptions = [PENDING, APPROVED]"
    by (simp add: statusOptions_def)
  show "map status_literal statusOptions = [''PENDING'', ''APPROVED'']"
    by (simp add: statusOptions_def status_literal_def)
  show "find (\<lambda>c. column_name c = ''status'') (columns invoices_table)
       = Some \<lparr>column_name = ''status'',
               data_type = ENUM (map status_literal statusOptions),
               not_null = False,
               default_clause = Some (DEFAULT (Text (status_literal PENDING))),
               auto_increment = False, primary_key = False\<rparr>"
    by (simp add: statusOptions_def status_literal_def invoices_table_def col_def)
  show "\<forall>r \<in> set (contents (run stmts empty_database) ''invoices'').
         cell r ''status'' = NULL \<or> spec_status (cell r ''status'')"
    using stored_status [of _ stmts] by (auto simp: spec_status_def)
  show "\<forall>given now db db'.
         execute (INSERT_INTO ''invoices'' given now) db = Some db'
         \<and> ''status'' \<notin> set (map fst given)
         \<longrightarrow> cell (last (contents db' ''invoices'')) ''status'' = Text ''PENDING''"
    using default_status by blast
qed

theorem invoice_status_values_witness:
  "hd (contents (run seed empty_database) ''invoices'')
     \<in> set (contents (run seed empty_database) ''invoices'')
   \<and> cell (hd (contents (run seed empty_database) ''invoices'')) ''status'' = Text ''APPROVED''
   \<and> spec_status (cell (hd (contents (run seed empty_database) ''invoices'')) ''status'')
   \<and> (\<exists>db'. execute insert_no_status empty_database = Some db'
         \<and> cell (last (contents db' ''invoices'')) ''status'' = Text ''PENDING'')"
proof -
  let ?rows = "contents (run seed empty_database) ''invoices''"
  note fact = invoice_status_values [of seed]
  have "length ?rows = 1"
    using arg_cong [OF seed_invoices, of length] by simp
  then obtain r where rows: "?rows = [r]"
    by (cases ?rows) auto
  then have member: "hd ?rows \<in> set ?rows"
    by simp
  from seed_invoices have "cell r ''status'' = Text ''APPROVED''"
    unfolding rows by simp
  then have approved: "cell (hd ?rows) ''status'' = Text ''APPROVED''"
    unfolding rows by simp
  from fact member have "cell (hd ?rows) ''status'' = NULL \<or> spec_status (cell (hd ?rows) ''status'')"
    by blast
  with approved have spec: "spec_status (cell (hd ?rows) ''status'')"
    by simp
  from no_status_inserted obtain db'
    where inserted: "execute insert_no_status empty_database = Some db'" ..
  have "''status'' \<notin> set (map fst [(''invoice_no'', Text ''INV-1003'')])"
    by simp
  with fact inserted have "cell (last (contents db' ''invoices'')) ''status'' = Text ''PENDING''"
    unfolding insert_no_status_def by blast
  with member approved spec inserted show ?thesis by blast
qed

text \<open>
  C5 as stated fails for the rows of the table: an invoice inserted with the status
  \<open>NULL\<close> is stored with it, and \<open>NULL\<close> is neither of the two values.
\<close>

theorem null_status_stored:
  "contents (run [insert_null_status] empty_database) ''invoices''
     = [[(''id'', Integer 1), (''supplier_name'', NULL), (''supplier_gstin'', NULL),
         (''invoice_no'', Text ''INV-1002''), (''invoice_date'', NULL), (''subtotal'', NULL),
         (''tax'', NULL), (''total'', NULL), (''status'', NULL),
         (''created_at'', Text ''2025-10-02 00:00:00'')]]
   \<and> cell (hd (contents (run [insert_null_status] empty_database) ''invoices'')) ''status''
       = NULL
   \<and> \<not> spec_status
         (cell (hd (contents (run [insert_null_status] empty_database) ''invoices'')) ''status'')"
  unfolding null_status_rows by (simp add: cell_def spec_status_def)

end
